theory Spec2Isabelle
  imports Main "HOL-Library.AList" "HOL-Library.Sublist"
begin

section \<open>JavaScript values and the built-ins the server relies on\<close>

text \<open>
  The server is one TypeScript file, \<^verbatim>\<open>src/server.ts\<close>, an Express application.
  This theory embeds the parts of it that decide what a client receives: the
  data-access helpers, the SSE negotiation helper, the metadata builder and the
  two route handlers. Values that cross the HTTP boundary are JSON values.

  Strings are byte strings holding UTF-8, so the Japanese literals of the source
  appear as their bytes. JSON numbers are restricted to integers (printed in
  plain decimal, as JavaScript does below \<open>10\<^sup>2\<^sup>1\<close>); the handlers only test a
  number for truthiness and print it inside a message. The members of an object
  are listed in JavaScript's own-property order, each key once.
\<close>

datatype json =
    JNull
  | JBool bool
  | JNum int
  | JStr string
  | JArr "json list"
  | JObj "(string \<times> json) list"

text \<open>A JavaScript value read from a request: \<open>None\<close> is \<^verbatim>\<open>undefined\<close>.\<close>

type_synonym jsval = "json option"

abbreviation LF :: char where
  "LF \<equiv> CHR 0x0A"

abbreviation APOS :: char where
  "APOS \<equiv> CHR 0x27"

text \<open>\<^verbatim>\<open>s.startsWith(t)\<close> and \<^verbatim>\<open>s.includes(t)\<close> on strings.\<close>

fun startsWith :: "string \<Rightarrow> string \<Rightarrow> bool" where
  "startsWith s [] = True"
| "startsWith [] (c # t) = False"
| "startsWith (d # s) (c # t) = (d = c \<and> startsWith s t)"

fun str_includes :: "string \<Rightarrow> string \<Rightarrow> bool" where
  "str_includes [] t = (t = [])"
| "str_includes (d # s) t = (startsWith (d # s) t \<or> str_includes s t)"

text \<open>
  Truthiness, as \<^verbatim>\<open>!v\<close> and \<^verbatim>\<open>if (v)\<close> test it: \<^verbatim>\<open>undefined\<close>, \<^verbatim>\<open>null\<close>,
  \<^verbatim>\<open>false\<close>, \<^verbatim>\<open>0\<close> and the empty string are falsy, every array and object is
  truthy.
\<close>

fun js_truthy :: "jsval \<Rightarrow> bool" where
  "js_truthy None = False"
| "js_truthy (Some JNull) = False"
| "js_truthy (Some (JBool b)) = b"
| "js_truthy (Some (JNum n)) = (n \<noteq> 0)"
| "js_truthy (Some (JStr s)) = (s \<noteq> [])"
| "js_truthy (Some (JArr xs)) = True"
| "js_truthy (Some (JObj kvs)) = True"

text \<open>
  The property read \<^verbatim>\<open>v.k\<close> for the keys the server reads (\<^verbatim>\<open>context_id\<close>,
  \<^verbatim>\<open>params\<close>, \<^verbatim>\<open>post_id\<close>): an object yields its member, and a primitive or an
  array has no such property and yields \<^verbatim>\<open>undefined\<close>. JavaScript throws on
  \<^verbatim>\<open>undefined\<close> and \<^verbatim>\<open>null\<close>; the server reads a property only of a parsed body
  or behind a truthiness test.
\<close>

fun get_property :: "jsval \<Rightarrow> string \<Rightarrow> jsval" where
  "get_property (Some (JObj kvs)) k = map_of kvs k"
| "get_property v k = None"

text \<open>Decimal printing of integers.\<close>

definition digit_char :: "nat \<Rightarrow> char" where
  "digit_char d = ''0123456789'' ! d"

function nat_to_string :: "nat \<Rightarrow> string" where
  "nat_to_string n =
     (if n < 10 then [digit_char n] else nat_to_string (n div 10) @ [digit_char (n mod 10)])"
  by pat_completeness auto
termination
  by (relation "measure (\<lambda>n. n)") auto

declare nat_to_string.simps [simp del]

definition int_to_string :: "int \<Rightarrow> string" where
  "int_to_string i =
     (if i < 0 then CHR ''-'' # nat_to_string (nat (- i)) else nat_to_string (nat i))"

text \<open>\<^verbatim>\<open>xs.join(sep)\<close> on a list of strings.\<close>

fun join :: "string \<Rightarrow> string list \<Rightarrow> string" where
  "join sep [] = []"
| "join sep [x] = x"
| "join sep (x # y # ys) = x @ sep @ join sep (y # ys)"

text \<open>
  Errors a JavaScript computation can throw or reject with: a rejected file
  read (with its error code), a \<^verbatim>\<open>SyntaxError\<close> of \<^verbatim>\<open>JSON.parse\<close>, a
  \<^verbatim>\<open>TypeError\<close>, and Node's \<^verbatim>\<open>ERR_HTTP_HEADERS_SENT\<close>.
\<close>

datatype js_error =
    ReadFailed string
  | SyntaxError
  | TypeError
  | ERR_HTTP_HEADERS_SENT

text \<open>
  String conversion, as a template literal \<^verbatim>\<open>`${v}`\<close> performs it. An array
  prints its elements separated by commas, with \<^verbatim>\<open>null\<close> elements printed as
  nothing; an object prints as \<^verbatim>\<open>[object Object]\<close>. An object with a member
  named \<^verbatim>\<open>toString\<close> cannot be converted: the member, which is never a
  function, hides the inherited method, and the conversion throws a
  \<^verbatim>\<open>TypeError\<close>; so does the conversion of an array that holds such an object.
\<close>

fun printable :: "json \<Rightarrow> bool" where
  "printable (JArr xs) = list_all printable xs"
| "printable (JObj kvs) = (map_of kvs ''toString'' = None)"
| "printable v = True"

fun toString :: "json \<Rightarrow> string" where
  "toString JNull = ''null''"
| "toString (JBool b) = (if b then ''true'' else ''false'')"
| "toString (JNum n) = int_to_string n"
| "toString (JStr s) = s"
| "toString (JArr xs) = join '','' (map (\<lambda>x. if x = JNull then [] else toString x) xs)"
| "toString (JObj kvs) = ''[object Object]''"

fun template :: "jsval \<Rightarrow> js_error + string" where
  "template None = Inr ''undefined''"
| "template (Some v) = (if printable v then Inr (toString v) else Inl TypeError)"

text \<open>
  \<^verbatim>\<open>JSON.stringify\<close> without replacer or indentation. A string is quoted with
  the escapes of ECMAScript's QuoteJSONString: the double quote, the backslash
  and the control characters below \<open>0x20\<close>; every other byte is copied.
\<close>

definition hex_digit :: "nat \<Rightarrow> char" where
  "hex_digit d = ''0123456789abcdef'' ! d"

definition quote_char :: "char \<Rightarrow> string" where
  "quote_char c =
     (if c = CHR 0x22 then [CHR 0x5C, CHR 0x22]
      else if c = CHR 0x5C then [CHR 0x5C, CHR 0x5C]
      else if c = CHR 0x08 then [CHR 0x5C, CHR ''b'']
      else if c = CHR 0x0C then [CHR 0x5C, CHR ''f'']
      else if c = CHR 0x0A then [CHR 0x5C, CHR ''n'']
      else if c = CHR 0x0D then [CHR 0x5C, CHR ''r'']
      else if c = CHR 0x09 then [CHR 0x5C, CHR ''t'']
      else if (of_char c :: nat) < 32 then
        [CHR 0x5C, CHR ''u'', CHR ''0'', CHR ''0'',
         hex_digit (of_char c div 16), hex_digit (of_char c mod 16)]
      else [c])"

definition quote :: "string \<Rightarrow> string" where
  "quote s = CHR 0x22 # concat (map quote_char s) @ [CHR 0x22]"

fun JSON_stringify :: "json \<Rightarrow> string" where
  "JSON_stringify JNull = ''null''"
| "JSON_stringify (JBool b) = (if b then ''true'' else ''false'')"
| "JSON_stringify (JNum n) = int_to_string n"
| "JSON_stringify (JStr s) = quote s"
| "JSON_stringify (JArr xs) = ''['' @ join '','' (map JSON_stringify xs) @ '']''"
| "JSON_stringify (JObj kvs) =
     ''{'' @ join '','' (map (\<lambda>kv. quote (fst kv) @ '':'' @ JSON_stringify (snd kv)) kvs) @ ''}''"

declare JSON_stringify.simps [simp del]

section \<open>The HTTP response object\<close>

text \<open>
  A handler receives Node's \<^verbatim>\<open>ServerResponse\<close>, extended by Express, and drives
  it through its methods. The record keeps what the handlers can influence:
  the \<^verbatim>\<open>statusCode\<close> property, the header table, whether the header block has
  gone out and with which status line, the body chunks written so far, and
  whether the response has ended. What the client sees as the HTTP status is
  \<open>statusLine\<close>: it is fixed at the moment the header block is sent, from the
  value \<^verbatim>\<open>statusCode\<close> has then. Header names are compared as written; the
  program spells each name in one way only.
\<close>

record response =
  statusCode :: nat
  headers :: "(string \<times> string) list"
  headersSent :: bool
  statusLine :: "nat option"
  written :: string
  finished :: bool

definition new_response :: response where
  "new_response =
     \<lparr>statusCode = 200, headers = [], headersSent = False, statusLine = None,
      written = [], finished = False\<rparr>"

text \<open>
  A statement acting on the response either returns a value or throws, and in
  both cases leaves the response in some state.
\<close>

datatype 'a outcome =
    Return 'a response
  | Throw js_error response

fun and_then :: "'a outcome \<Rightarrow> ('a \<Rightarrow> response \<Rightarrow> 'b outcome) \<Rightarrow> 'b outcome" where
  "and_then (Return a res) f = f a res"
| "and_then (Throw e res) f = Throw e res"

fun response_of :: "'a outcome \<Rightarrow> response" where
  "response_of (Return a res) = res"
| "response_of (Throw e res) = res"

fun thrown :: "'a outcome \<Rightarrow> js_error option" where
  "thrown (Return a res) = None"
| "thrown (Throw e res) = Some e"

text \<open>
  \<^verbatim>\<open>res.setHeader(k, v)\<close>: Node refuses to change a header once the header block
  has been sent and throws \<^verbatim>\<open>ERR_HTTP_HEADERS_SENT\<close>.
\<close>

definition res_setHeader :: "string \<Rightarrow> string \<Rightarrow> response \<Rightarrow> unit outcome" where
  "res_setHeader k v res =
     (if headersSent res then Throw ERR_HTTP_HEADERS_SENT res
      else Return () (res\<lparr>headers := AList.update k v (headers res)\<rparr>))"

definition res_get :: "string \<Rightarrow> response \<Rightarrow> string option" where
  "res_get k res = map_of (headers res) k"

text \<open>
  Sending the header block: the status line carries the current \<^verbatim>\<open>statusCode\<close>.
  \<^verbatim>\<open>res.flushHeaders()\<close> does it at once; \<^verbatim>\<open>res.write\<close> and \<^verbatim>\<open>res.end\<close> do it
  first when it has not happened yet.
\<close>

definition send_head :: "response \<Rightarrow> response" where
  "send_head res =
     (if headersSent res then res
      else res\<lparr>headersSent := True, statusLine := Some (statusCode res)\<rparr>)"

definition res_flushHeaders :: "response \<Rightarrow> response" where
  "res_flushHeaders res = send_head res"

text \<open>
  \<^verbatim>\<open>res.status(code)\<close> assigns the \<^verbatim>\<open>statusCode\<close> property and nothing else: after
  the header block has gone out the assignment no longer reaches the client.
\<close>

definition res_status :: "nat \<Rightarrow> response \<Rightarrow> response" where
  "res_status code res = res\<lparr>statusCode := code\<rparr>"

definition res_write :: "string \<Rightarrow> response \<Rightarrow> response" where
  "res_write chunk res = (send_head res)\<lparr>written := written res @ chunk\<rparr>"

definition res_end :: "response \<Rightarrow> response" where
  "res_end res = (send_head res)\<lparr>finished := True\<rparr>"

text \<open>
  \<^verbatim>\<open>res.json(obj)\<close>: Express serialises \<^verbatim>\<open>obj\<close> with \<^verbatim>\<open>JSON.stringify\<close> (the
  application configures no replacer, spacing or escaping), sets the
  \<^verbatim>\<open>Content-Type\<close> header through \<^verbatim>\<open>res.setHeader\<close> (\<^verbatim>\<open>application/json\<close> when
  none is set, and in every case with the charset \<^verbatim>\<open>utf-8\<close>), and ends the
  response with the text as its body. Because of the header assignment the
  call throws when the header block has already been sent. Of the headers
  Express adds, only \<^verbatim>\<open>Content-Type\<close> is recorded.
\<close>

definition charset_utf8 :: "string \<Rightarrow> string" where
  "charset_utf8 t = (if str_includes t ''charset='' then t else t @ ''; charset=utf-8'')"

definition res_json :: "json \<Rightarrow> response \<Rightarrow> unit outcome" where
  "res_json obj res =
     (let payload = JSON_stringify obj;
          type = (case res_get ''Content-Type'' res of
                    None \<Rightarrow> ''application/json''
                  | Some t \<Rightarrow> t)
      in and_then (res_setHeader ''Content-Type'' (charset_utf8 type) res)
           (\<lambda>_ res. Return () (res_end (res_write payload res))))"

section \<open>Requests and the environment\<close>

text \<open>
  Of a request the handlers read the \<^verbatim>\<open>Accept\<close> and \<^verbatim>\<open>Host\<close> headers
  (\<^verbatim>\<open>req.get\<close>, \<open>None\<close> when the header is missing), \<^verbatim>\<open>req.protocol\<close> and the
  body as \<^verbatim>\<open>express.json()\<close> parsed it, an object or an array.
\<close>

record request =
  accept :: "string option"
  host :: "string option"
  protocol :: string
  body :: json

text \<open>
  What lies outside the program: the files below the server's directory,
  addressed by the path segments handed to \<^verbatim>\<open>path.join(__dirname, ...)\<close>, where
  \<^verbatim>\<open>fs.readFile\<close> either yields the text or rejects; \<^verbatim>\<open>JSON.parse\<close>, which either
  yields a value or throws; and the \<^verbatim>\<open>PORT\<close> environment variable.
\<close>

record world =
  readFile :: "string list \<Rightarrow> js_error + string"
  JSON_parse :: "string \<Rightarrow> js_error + json"
  PORT :: "string option"

text \<open>\<^verbatim>\<open>const port = process.env.PORT || 3000\<close>, as it prints.\<close>

definition port :: "world \<Rightarrow> string" where
  "port w = (case PORT w of None \<Rightarrow> ''3000'' | Some p \<Rightarrow> if p = [] then ''3000'' else p)"

section \<open>String literals of the source\<close>

text \<open>
  The Japanese texts of the fallback documents and of the metadata document,
  as the bytes of their UTF-8 encoding.
\<close>

definition default_profile_name :: string where
  "default_profile_name =
     [CHR 0xE6, CHR 0xB3, CHR 0x89, CHR 0xE6, CHR 0xBE, CHR 0xA4] @ '' '' @ [CHR 0xE7,
     CHR 0x9B, CHR 0xB4, CHR 0xE6, CHR 0xA8, CHR 0xB9]"

definition default_profile_bio :: string where
  "default_profile_bio =
     ''TypeScript '' @ [CHR 0xE3, CHR 0x81, CHR 0xA8] @ '' MCP '' @ [CHR 0xE3,
     CHR 0x81, CHR 0xAB, CHR 0xE8, CHR 0x88, CHR 0x88, CHR 0xE5, CHR 0x91, CHR 0xB3,
     CHR 0xE3, CHR 0x81, CHR 0x8C, CHR 0xE3, CHR 0x81, CHR 0x82, CHR 0xE3, CHR 0x82,
     CHR 0x8B, CHR 0xE3, CHR 0x82, CHR 0xA8, CHR 0xE3, CHR 0x83, CHR 0xB3, CHR 0xE3,
     CHR 0x82, CHR 0xB8, CHR 0xE3, CHR 0x83, CHR 0x8B, CHR 0xE3, CHR 0x82, CHR 0xA2,
     CHR 0xE3, CHR 0x81, CHR 0xA7, CHR 0xE3, CHR 0x81, CHR 0x99, CHR 0xE3, CHR 0x80,
     CHR 0x82]"

definition default_post1_title :: string where
  "default_post1_title =
     ''MCP'' @ [CHR 0xE3, CHR 0x82, CHR 0xB5, CHR 0xE3, CHR 0x83, CHR 0xBC, CHR 0xE3,
     CHR 0x83, CHR 0x90, CHR 0xE3, CHR 0x83, CHR 0xBC, CHR 0xE6, CHR 0xA7, CHR 0x8B,
     CHR 0xE7, CHR 0xAF, CHR 0x89, CHR 0xE8, CHR 0xA8, CHR 0x98]"

definition default_post1_summary :: string where
  "default_post1_summary =
     ''TypeScript'' @ [CHR 0xE3, CHR 0x81, CHR 0xA7] @ ''MCP'' @ [CHR 0xE3, CHR 0x82,
     CHR 0xB5, CHR 0xE3, CHR 0x83, CHR 0xBC, CHR 0xE3, CHR 0x83, CHR 0x90, CHR 0xE3,
     CHR 0x83, CHR 0xBC, CHR 0xE3, CHR 0x82, CHR 0x92, CHR 0xE4, CHR 0xBD, CHR 0x9C,
     CHR 0xE3, CHR 0x81, CHR 0xA3, CHR 0xE3, CHR 0x81, CHR 0x9F, CHR 0xE8, CHR 0xA9,
     CHR 0xB1] @ ''...''"

definition default_post2_title :: string where
  "default_post2_title =
     ''TypeScript'' @ [CHR 0xE3, CHR 0x81, CHR 0xAE, CHR 0xE4, CHR 0xBE, CHR 0xBF,
     CHR 0xE5, CHR 0x88, CHR 0xA9, CHR 0xE3, CHR 0x81, CHR 0xAA, CHR 0xE6, CHR 0xA9,
     CHR 0x9F, CHR 0xE8, CHR 0x83, CHR 0xBD]"

definition default_post2_summary :: string where
  "default_post2_summary =
     [CHR 0xE5, CHR 0x9E, CHR 0x8B, CHR 0xE5, CHR 0xAE, CHR 0x89, CHR 0xE5, CHR 0x85,
     CHR 0xA8, CHR 0xE3, CHR 0x81, CHR 0xAA, CHR 0xE9, CHR 0x96, CHR 0x8B, CHR 0xE7,
     CHR 0x99, CHR 0xBA] @ ''...''"

definition server_description :: string where
  "server_description =
     [CHR 0xE3, CHR 0x83, CHR 0x97, CHR 0xE3, CHR 0x83, CHR 0xAD, CHR 0xE3, CHR 0x83,
     CHR 0x95, CHR 0xE3, CHR 0x82, CHR 0xA3, CHR 0xE3, CHR 0x83, CHR 0xBC, CHR 0xE3,
     CHR 0x83, CHR 0xAB, CHR 0xE3, CHR 0x81, CHR 0xA8, CHR 0xE3, CHR 0x83, CHR 0x96,
     CHR 0xE3, CHR 0x83, CHR 0xAD, CHR 0xE3, CHR 0x82, CHR 0xB0, CHR 0xE8, CHR 0xA8,
     CHR 0x98, CHR 0xE4, CHR 0xBA, CHR 0x8B, CHR 0xE3, CHR 0x82, CHR 0x92, CHR 0xE6,
     CHR 0x8F, CHR 0x90, CHR 0xE4, CHR 0xBE, CHR 0x9B, CHR 0xE3, CHR 0x81, CHR 0x97,
     CHR 0xE3, CHR 0x81, CHR 0xBE, CHR 0xE3, CHR 0x81, CHR 0x99, CHR 0xE3, CHR 0x80,
     CHR 0x82]"

definition profile_context_name :: string where
  "profile_context_name =
     [CHR 0xE3, CHR 0x83, CHR 0x97, CHR 0xE3, CHR 0x83, CHR 0xAD, CHR 0xE3, CHR 0x83,
     CHR 0x95, CHR 0xE3, CHR 0x82, CHR 0xA3, CHR 0xE3, CHR 0x83, CHR 0xBC, CHR 0xE3,
     CHR 0x83, CHR 0xAB, CHR 0xE6, CHR 0x83, CHR 0x85, CHR 0xE5, CHR 0xA0, CHR 0xB1]"

definition profile_context_description :: string where
  "profile_context_description =
     [CHR 0xE9, CHR 0x81, CHR 0x8B, CHR 0xE5, CHR 0x96, CHR 0xB6, CHR 0xE8, CHR 0x80,
     CHR 0x85, CHR 0xE3, CHR 0x81, CHR 0xAE, CHR 0xE5, CHR 0x9F, CHR 0xBA, CHR 0xE6,
     CHR 0x9C, CHR 0xAC, CHR 0xE7, CHR 0x9A, CHR 0x84, CHR 0xE3, CHR 0x81, CHR 0xAA,
     CHR 0xE3, CHR 0x83, CHR 0x97, CHR 0xE3, CHR 0x83, CHR 0xAD, CHR 0xE3, CHR 0x83,
     CHR 0x95, CHR 0xE3, CHR 0x82, CHR 0xA3, CHR 0xE3, CHR 0x83, CHR 0xBC, CHR 0xE3,
     CHR 0x83, CHR 0xAB]"

definition blog_posts_list_context_name :: string where
  "blog_posts_list_context_name =
     [CHR 0xE3, CHR 0x83, CHR 0x96, CHR 0xE3, CHR 0x83, CHR 0xAD, CHR 0xE3, CHR 0x82,
     CHR 0xB0, CHR 0xE8, CHR 0xA8, CHR 0x98, CHR 0xE4, CHR 0xBA, CHR 0x8B, CHR 0xE3,
     CHR 0x83, CHR 0xAA, CHR 0xE3, CHR 0x82, CHR 0xB9, CHR 0xE3, CHR 0x83, CHR 0x88]"

definition blog_posts_list_context_description :: string where
  "blog_posts_list_context_description =
     [CHR 0xE6, CHR 0x8A, CHR 0x95, CHR 0xE7, CHR 0xA8, CHR 0xBF, CHR 0xE3, CHR 0x81,
     CHR 0x95, CHR 0xE3, CHR 0x82, CHR 0x8C, CHR 0xE3, CHR 0x81, CHR 0x9F, CHR 0xE3,
     CHR 0x83, CHR 0x96, CHR 0xE3, CHR 0x83, CHR 0xAD, CHR 0xE3, CHR 0x82, CHR 0xB0,
     CHR 0xE8, CHR 0xA8, CHR 0x98, CHR 0xE4, CHR 0xBA, CHR 0x8B, CHR 0xE3, CHR 0x81,
     CHR 0xAE, CHR 0xE3, CHR 0x82, CHR 0xBF, CHR 0xE3, CHR 0x82, CHR 0xA4, CHR 0xE3,
     CHR 0x83, CHR 0x88, CHR 0xE3, CHR 0x83, CHR 0xAB, CHR 0xE3, CHR 0x81, CHR 0xA8,
     CHR 0xE6, CHR 0xA6, CHR 0x82, CHR 0xE8, CHR 0xA6, CHR 0x81]"

definition blog_post_content_context_name :: string where
  "blog_post_content_context_name =
     [CHR 0xE3, CHR 0x83, CHR 0x96, CHR 0xE3, CHR 0x83, CHR 0xAD, CHR 0xE3, CHR 0x82,
     CHR 0xB0, CHR 0xE8, CHR 0xA8, CHR 0x98, CHR 0xE4, CHR 0xBA, CHR 0x8B, CHR 0xE6,
     CHR 0x9C, CHR 0xAC, CHR 0xE6, CHR 0x96, CHR 0x87]"

definition blog_post_content_context_description :: string where
  "blog_post_content_context_description =
     [CHR 0xE6, CHR 0x8C, CHR 0x87, CHR 0xE5, CHR 0xAE, CHR 0x9A, CHR 0xE3, CHR 0x81,
     CHR 0x95, CHR 0xE3, CHR 0x82, CHR 0x8C, CHR 0xE3, CHR 0x81, CHR 0x9F] @ ''ID'' @
     [CHR 0xE3, CHR 0x81, CHR 0xAE, CHR 0xE3, CHR 0x83, CHR 0x96, CHR 0xE3, CHR 0x83,
     CHR 0xAD, CHR 0xE3, CHR 0x82, CHR 0xB0, CHR 0xE8, CHR 0xA8, CHR 0x98, CHR 0xE4,
     CHR 0xBA, CHR 0x8B, CHR 0xE3, CHR 0x81, CHR 0xAE, CHR 0xE6, CHR 0x9C, CHR 0xAC,
     CHR 0xE6, CHR 0x96, CHR 0x87, CHR 0xEF, CHR 0xBC, CHR 0x88] @ ''Markdown'' @
     [CHR 0xE5, CHR 0xBD, CHR 0xA2, CHR 0xE5, CHR 0xBC, CHR 0x8F, CHR 0xEF, CHR 0xBC,
     CHR 0x89]"

definition post_id_description :: string where
  "post_id_description =
     [CHR 0xE5, CHR 0x8F, CHR 0x96, CHR 0xE5, CHR 0xBE, CHR 0x97, CHR 0xE3, CHR 0x81,
     CHR 0x97, CHR 0xE3, CHR 0x81, CHR 0x9F, CHR 0xE3, CHR 0x81, CHR 0x84, CHR 0xE3,
     CHR 0x83, CHR 0x96, CHR 0xE3, CHR 0x83, CHR 0xAD, CHR 0xE3, CHR 0x82, CHR 0xB0,
     CHR 0xE8, CHR 0xA8, CHR 0x98, CHR 0xE4, CHR 0xBA, CHR 0x8B, CHR 0xE3, CHR 0x81,
     CHR 0xAE] @ ''ID''"

section \<open>Data-access helpers\<close>

text \<open>
  The three helpers read a file below \<^verbatim>\<open>data/\<close>. Each wraps its whole body in
  \<^verbatim>\<open>try\<close>/\<^verbatim>\<open>catch\<close>; the \<open>_try\<close> definitions are the bodies of the \<^verbatim>\<open>try\<close>
  blocks, where a rejected read or a failed parse leaves the block.
\<close>

definition default_profile :: json where
  "default_profile =
     JObj [(''name'', JStr default_profile_name),
           (''bio'', JStr default_profile_bio),
           (''website'', JStr ''https://example.com'')]"

definition default_posts :: json where
  "default_posts =
     JArr [JObj [(''id'', JStr ''post-1''), (''title'', JStr default_post1_title),
                 (''date'', JStr ''2023-04-09''), (''summary'', JStr default_post1_summary)],
           JObj [(''id'', JStr ''post-2''), (''title'', JStr default_post2_title),
                 (''date'', JStr ''2023-04-01''), (''summary'', JStr default_post2_summary)]]"

definition getUserProfile_try :: "world \<Rightarrow> js_error + json" where
  "getUserProfile_try w =
     (case readFile w [''data'', ''profile.json''] of
        Inl error \<Rightarrow> Inl error
      | Inr data \<Rightarrow> JSON_parse w data)"

definition getUserProfile :: "world \<Rightarrow> js_error + json" where
  "getUserProfile w =
     (case getUserProfile_try w of
        Inl error \<Rightarrow> Inr default_profile
      | Inr profile \<Rightarrow> Inr profile)"

definition getBlogPosts_try :: "world \<Rightarrow> js_error + json" where
  "getBlogPosts_try w =
     (case readFile w [''data'', ''posts'', ''index.json''] of
        Inl error \<Rightarrow> Inl error
      | Inr data \<Rightarrow> JSON_parse w data)"

definition getBlogPosts :: "world \<Rightarrow> js_error + json" where
  "getBlogPosts w =
     (case getBlogPosts_try w of
        Inl error \<Rightarrow> Inr default_posts
      | Inr posts \<Rightarrow> Inr posts)"

text \<open>
  The post body is returned as read; \<open>None\<close> is the \<^verbatim>\<open>null\<close> of the \<^verbatim>\<open>catch\<close>.
  Both the path in the \<^verbatim>\<open>try\<close> block and the log message in the \<^verbatim>\<open>catch\<close>
  block convert the id to a string.
\<close>

definition getBlogPostContent_try :: "world \<Rightarrow> jsval \<Rightarrow> js_error + string option" where
  "getBlogPostContent_try w postId =
     (case template postId of
        Inl error \<Rightarrow> Inl error
      | Inr name \<Rightarrow>
          (case readFile w [''data'', ''posts'', name @ ''.md''] of
             Inl error \<Rightarrow> Inl error
           | Inr text \<Rightarrow> Inr (Some text)))"

definition getBlogPostContent :: "world \<Rightarrow> jsval \<Rightarrow> js_error + string option" where
  "getBlogPostContent w postId =
     (case getBlogPostContent_try w postId of
        Inl error \<Rightarrow>
          (case template postId of
             Inl error' \<Rightarrow> Inl error'
           | Inr name \<Rightarrow> Inr None)
      | Inr content \<Rightarrow> Inr content)"

section \<open>Middleware, negotiation and metadata\<close>

text \<open>
  The CORS middleware runs before every route. It sets three headers and
  answers an \<^verbatim>\<open>OPTIONS\<close> request itself; the value returned tells whether
  \<^verbatim>\<open>next()\<close> was called.
\<close>

definition cors :: "string \<Rightarrow> response \<Rightarrow> bool outcome" where
  "cors method res =
     and_then (res_setHeader ''Access-Control-Allow-Origin'' ''*'' res) (\<lambda>_ res.
     and_then (res_setHeader ''Access-Control-Allow-Headers''
                 ''Origin, X-Requested-With, Content-Type, Accept'' res) (\<lambda>_ res.
     and_then (res_setHeader ''Access-Control-Allow-Methods'' ''GET, POST, OPTIONS'' res) (\<lambda>_ res.
       if method = ''OPTIONS'' then Return False (res_end (res_status 200 res))
       else Return True res)))"

text \<open>
  \<^verbatim>\<open>setupSSE\<close>: the request negotiates SSE when its \<^verbatim>\<open>Accept\<close> header contains
  \<^verbatim>\<open>text/event-stream\<close>. In that case the helper sets the streaming headers and
  flushes the header block, which sends the status line.
\<close>

definition isSseRequest :: "request \<Rightarrow> bool" where
  "isSseRequest req =
     (let acceptHeader = (case accept req of None \<Rightarrow> [] | Some a \<Rightarrow> a)
      in str_includes acceptHeader ''text/event-stream'')"

definition setupSSE :: "request \<Rightarrow> response \<Rightarrow> bool outcome" where
  "setupSSE req res =
     (if isSseRequest req then
        and_then (res_setHeader ''Content-Type'' ''text/event-stream'' res) (\<lambda>_ res.
        and_then (res_setHeader ''Cache-Control'' ''no-cache'' res) (\<lambda>_ res.
        and_then (res_setHeader ''Connection'' ''keep-alive'' res) (\<lambda>_ res.
        and_then (res_setHeader ''X-Accel-Buffering'' ''no'' res) (\<lambda>_ res.
          Return True (res_flushHeaders res)))))
      else Return False res)"

text \<open>
  \<^verbatim>\<open>getMcpMetadata\<close>: the host is the \<^verbatim>\<open>Host\<close> header, or \<^verbatim>\<open>localhost:<port>\<close>
  when the header is missing or empty.
\<close>

definition request_host :: "world \<Rightarrow> request \<Rightarrow> string" where
  "request_host w req =
     (case host req of
        None \<Rightarrow> ''localhost:'' @ port w
      | Some h \<Rightarrow> if h = [] then ''localhost:'' @ port w else h)"

definition scheme :: "world \<Rightarrow> request \<Rightarrow> string" where
  "scheme w req =
     (if protocol req = ''http'' \<and> startsWith (request_host w req) ''localhost''
      then ''http'' else ''https'')"

definition rootUrl :: "world \<Rightarrow> request \<Rightarrow> string" where
  "rootUrl w req = scheme w req @ ''://'' @ request_host w req"

definition contexts :: json where
  "contexts =
     JArr [JObj [(''id'', JStr ''profile''),
                 (''name'', JStr profile_context_name),
                 (''description'', JStr profile_context_description),
                 (''mcp_endpoint'', JStr ''/mcp'')],
           JObj [(''id'', JStr ''blog_posts_list''),
                 (''name'', JStr blog_posts_list_context_name),
                 (''description'', JStr blog_posts_list_context_description),
                 (''mcp_endpoint'', JStr ''/mcp'')],
           JObj [(''id'', JStr ''blog_post_content''),
                 (''name'', JStr blog_post_content_context_name),
                 (''description'', JStr blog_post_content_context_description),
                 (''mcp_endpoint'', JStr ''/mcp''),
                 (''params_schema'',
                    JObj [(''type'', JStr ''object''),
                          (''properties'',
                             JObj [(''post_id'',
                                      JObj [(''type'', JStr ''string''),
                                            (''description'', JStr post_id_description)])]),
                          (''required'', JArr [JStr ''post_id''])])]]"

definition getMcpMetadata :: "world \<Rightarrow> request \<Rightarrow> json" where
  "getMcpMetadata w req =
     JObj [(''name'', JStr ''Izawa MCP Server''),
           (''description'', JStr server_description),
           (''root_url'', JStr (rootUrl w req)),
           (''icon_url'', JStr (rootUrl w req @ ''/icon.png'')),
           (''contexts'', contexts)]"

section \<open>The route handlers\<close>

text \<open>
  \<^verbatim>\<open>GET /.well-known/model-context-protocol.json\<close>: one SSE frame or a JSON
  body, as negotiated.
\<close>

definition well_known :: "world \<Rightarrow> request \<Rightarrow> response \<Rightarrow> unit outcome" where
  "well_known w req res =
     and_then (setupSSE req res) (\<lambda>isSse res.
       let data = getMcpMetadata w req
       in if isSse
          then Return () (res_end (res_write (''data: '' @ JSON_stringify data @ [LF, LF]) res))
          else res_json data res)"

text \<open>
  \<^verbatim>\<open>POST /mcp\<close>. The statements after the \<^verbatim>\<open>switch\<close> wrap the content and its
  format and deliver them in the negotiated envelope.
\<close>

definition send_responseData :: "bool \<Rightarrow> string \<Rightarrow> string \<Rightarrow> response \<Rightarrow> unit outcome" where
  "send_responseData isSse content format res =
     (let responseData =
            JObj [(''context'', JObj [(''content'', JStr content), (''format'', JStr format)])]
      in if isSse
         then Return () (res_end (res_write (''data: '' @ JSON_stringify responseData @ [LF, LF]) res))
         else res_json responseData res)"

text \<open>
  The body of the handler's \<^verbatim>\<open>try\<close> block. An awaited helper that rejected
  would throw here, and so does a log message that cannot convert the id it
  prints: the request log after the presence test prints \<^verbatim>\<open>context_id\<close>, and
  the warning of the not-found branch prints the post id. The three branches
  that answer with \<^verbatim>\<open>res.status(..).json(..)\<close> do so without consulting the
  negotiation.
\<close>

definition mcp_try :: "world \<Rightarrow> jsval \<Rightarrow> jsval \<Rightarrow> bool \<Rightarrow> response \<Rightarrow> unit outcome" where
  "mcp_try w context_id params isSse res =
     (if \<not> js_truthy context_id then
        (if isSse then
           Return () (res_end (res_write
             (''data: '' @ JSON_stringify (JObj [(''error'', JStr ''context_id is required'')])
                @ [LF, LF]) res))
         else res_json (JObj [(''error'', JStr ''context_id is required'')]) (res_status 400 res))
      else
        (case template context_id of
           Inl error \<Rightarrow> Throw error res
         | Inr shown \<Rightarrow>
             if context_id = Some (JStr ''profile'') then
               (case getUserProfile w of
                  Inl error \<Rightarrow> Throw error res
                | Inr userProfile \<Rightarrow>
                    send_responseData isSse (JSON_stringify userProfile) ''application/json'' res)
             else if context_id = Some (JStr ''blog_posts_list'') then
               (case getBlogPosts w of
                  Inl error \<Rightarrow> Throw error res
                | Inr posts \<Rightarrow>
                    send_responseData isSse (JSON_stringify posts) ''application/json'' res)
             else if context_id = Some (JStr ''blog_post_content'') then
               (if \<not> js_truthy params \<or> \<not> js_truthy (get_property params ''post_id'') then
                  res_json
                    (JObj [(''error'',
                       JStr (''Missing required parameter '' @ [APOS] @ ''post_id'' @ [APOS]
                             @ '' for context '' @ [APOS] @ ''blog_post_content'' @ [APOS]))])
                    (res_status 400 res)
                else
                  (let postId = get_property params ''post_id'';
                       not_found =
                         (case template postId of
                            Inl error \<Rightarrow> Throw error res
                          | Inr name \<Rightarrow>
                              res_json
                                (JObj [(''error'',
                                   JStr (''Blog post with id '' @ [APOS] @ name @ [APOS]
                                         @ '' not found''))])
                                (res_status 404 res))
                   in case getBlogPostContent w postId of
                        Inl error \<Rightarrow> Throw error res
                      | Inr None \<Rightarrow> not_found
                      | Inr (Some content) \<Rightarrow>
                          if content \<noteq> []
                          then send_responseData isSse content ''text/markdown'' res
                          else not_found))
             else
               res_json
                 (JObj [(''error'',
                    JStr (''Context with id '' @ [APOS] @ shown @ [APOS] @ '' not found''))])
                 (res_status 404 res)))"

text \<open>
  The \<^verbatim>\<open>catch\<close> block of the handler answers whatever the \<^verbatim>\<open>try\<close> block threw,
  in the negotiated envelope.
\<close>

definition mcp_catch :: "bool \<Rightarrow> js_error \<Rightarrow> response \<Rightarrow> unit outcome" where
  "mcp_catch isSse error res =
     (if isSse then
        Return () (res_end (res_write
          (''data: '' @ JSON_stringify (JObj [(''error'', JStr ''Internal server error'')])
             @ [LF, LF]) res))
      else res_json (JObj [(''error'', JStr ''Internal server error'')]) (res_status 500 res))"

text \<open>
  The handler: the body is destructured, the envelope is negotiated, and the
  \<^verbatim>\<open>try\<close> block runs.
\<close>

definition mcp_post :: "world \<Rightarrow> request \<Rightarrow> response \<Rightarrow> unit outcome" where
  "mcp_post w req res =
     (let context_id = get_property (Some (body req)) ''context_id'';
          params = get_property (Some (body req)) ''params''
      in and_then (setupSSE req res) (\<lambda>isSse res.
           case mcp_try w context_id params isSse res of
             Return u res' \<Rightarrow> Return u res'
           | Throw error res' \<Rightarrow> mcp_catch isSse error res'))"

text \<open>
  A request as the application serves it: a fresh response passes the CORS
  middleware and reaches the route.
\<close>

definition get_well_known :: "world \<Rightarrow> request \<Rightarrow> unit outcome" where
  "get_well_known w req =
     and_then (cors ''GET'' new_response) (\<lambda>next res.
       if next then well_known w req res else Return () res)"

definition post_mcp :: "world \<Rightarrow> request \<Rightarrow> unit outcome" where
  "post_mcp w req =
     and_then (cors ''POST'' new_response) (\<lambda>next res.
       if next then mcp_post w req res else Return () res)"

section \<open>Observing a response\<close>

text \<open>
  The specification speaks of two envelopes. A plain reply is a finished
  response whose status line carries the given status, whose content type is
  JSON, and whose body is the JSON text of the payload. An SSE reply is a
  finished response of content type \<^verbatim>\<open>text/event-stream\<close> whose body is exactly
  one \<^verbatim>\<open>data:\<close> frame holding the JSON text of the payload. Both require that
  the handler returned without throwing.
\<close>

definition plain_reply :: "unit outcome \<Rightarrow> nat \<Rightarrow> json \<Rightarrow> bool" where
  "plain_reply out status payload =
     (thrown out = None \<and>
      finished (response_of out) \<and>
      statusLine (response_of out) = Some status \<and>
      res_get ''Content-Type'' (response_of out) = Some ''application/json; charset=utf-8'' \<and>
      written (response_of out) = JSON_stringify payload)"

definition sse_reply :: "unit outcome \<Rightarrow> nat \<Rightarrow> json \<Rightarrow> bool" where
  "sse_reply out status payload =
     (thrown out = None \<and>
      finished (response_of out) \<and>
      statusLine (response_of out) = Some status \<and>
      res_get ''Content-Type'' (response_of out) = Some ''text/event-stream'' \<and>
      written (response_of out) = ''data: '' @ JSON_stringify payload @ [LF, LF])"

text \<open>
  The reply in the envelope a request negotiated. An SSE reply always carries
  status 200, because its header block is sent during the negotiation; the
  given status is that of the plain reply.
\<close>

definition negotiated_reply :: "request \<Rightarrow> unit outcome \<Rightarrow> nat \<Rightarrow> json \<Rightarrow> bool" where
  "negotiated_reply req out status payload =
     (if isSseRequest req then sse_reply out 200 payload else plain_reply out status payload)"

text \<open>The two payload shapes of the specification's data model.\<close>

abbreviation ContextResponse :: "string \<Rightarrow> string \<Rightarrow> json" where
  "ContextResponse content format \<equiv>
     JObj [(''context'', JObj [(''content'', JStr content), (''format'', JStr format)])]"

abbreviation ErrorEnvelope :: "string \<Rightarrow> json" where
  "ErrorEnvelope message \<equiv> JObj [(''error'', JStr message)]"

text \<open>
  Two states of a response that the proofs track: untouched by any route
  (nothing sent, no content type chosen), and streaming (the SSE header block
  has gone out with status 200 and no frame has been written).
\<close>

definition untouched :: "response \<Rightarrow> bool" where
  "untouched res =
     (statusCode res = 200 \<and> \<not> headersSent res \<and> statusLine res = None \<and>
      written res = [] \<and> \<not> finished res \<and> res_get ''Content-Type'' res = None)"

definition streaming :: "response \<Rightarrow> bool" where
  "streaming res =
     (headersSent res \<and> statusLine res = Some 200 \<and> written res = [] \<and>
      \<not> finished res \<and> res_get ''Content-Type'' res = Some ''text/event-stream'')"

text \<open>
  Sample inputs: a server directory in which every read fails, one that holds
  a post \<^verbatim>\<open>hello.md\<close> and an empty post \<^verbatim>\<open>empty.md\<close>, one whose files all
  hold text that is not JSON, and requests that differ in their \<^verbatim>\<open>Accept\<close>
  header only.
\<close>

definition no_files :: world where
  "no_files =
     \<lparr>readFile = (\<lambda>path. Inl (ReadFailed ''ENOENT'')),
      JSON_parse = (\<lambda>text. Inl SyntaxError),
      PORT = None\<rparr>"

definition two_posts :: world where
  "two_posts =
     \<lparr>readFile = (\<lambda>path.
        if path = [''data'', ''posts'', ''hello.md''] then Inr ''# Hello''
        else if path = [''data'', ''posts'', ''empty.md''] then Inr []
        else Inl (ReadFailed ''ENOENT'')),
      JSON_parse = (\<lambda>text. Inl SyntaxError),
      PORT = None\<rparr>"

definition unparsable :: world where
  "unparsable =
     \<lparr>readFile = (\<lambda>path. Inr ''{''),
      JSON_parse = (\<lambda>text. Inl SyntaxError),
      PORT = None\<rparr>"

definition json_request :: "json \<Rightarrow> request" where
  "json_request b =
     \<lparr>accept = Some ''application/json'', host = Some ''localhost:3000'',
      protocol = ''http'', body = b\<rparr>"

definition sse_request :: "json \<Rightarrow> request" where
  "sse_request b =
     \<lparr>accept = Some ''text/event-stream'', host = Some ''localhost:3000'',
      protocol = ''http'', body = b\<rparr>"

definition describe_request :: "string \<Rightarrow> string \<Rightarrow> request" where
  "describe_request h p = \<lparr>accept = None, host = Some h, protocol = p, body = JObj []\<rparr>"

definition post_request :: "string \<Rightarrow> json" where
  "post_request post_id =
     JObj [(''context_id'', JStr ''blog_post_content''),
           (''params'', JObj [(''post_id'', JStr post_id)])]"

section \<open>Lemmas about the response object\<close>

lemma res_json_unsent:
  assumes "\<not> headersSent res" and "res_get ''Content-Type'' res = None" and "written res = []"
  shows "plain_reply (res_json obj (res_status code res)) code obj"
  using assms
  by (simp add: plain_reply_def res_json_def res_status_def res_get_def res_setHeader_def
      charset_utf8_def res_end_def res_write_def send_head_def update_conv')

lemma res_json_sent:
  assumes "headersSent res"
  shows "res_json obj (res_status code res) = Throw ERR_HTTP_HEADERS_SENT (res_status code res)"
  using assms by (simp add: res_json_def res_status_def res_setHeader_def)

lemma frame_streaming:
  assumes "streaming res"
  shows "sse_reply (Return () (res_end (res_write (''data: '' @ JSON_stringify payload @ [LF, LF]) res)))
           200 payload"
  using assms
  by (simp add: streaming_def sse_reply_def res_end_def res_write_def send_head_def res_get_def)

lemma streaming_status: "streaming res \<Longrightarrow> streaming (res_status code res)"
  by (simp add: streaming_def res_status_def res_get_def)

lemma cors_untouched:
  assumes "m \<noteq> ''OPTIONS''"
  shows "\<exists>res. cors m new_response = Return True res \<and> untouched res"
  using assms
  by (simp add: cors_def new_response_def res_setHeader_def untouched_def res_get_def)

lemma setupSSE_plain: "\<not> isSseRequest req \<Longrightarrow> setupSSE req res = Return False res"
  by (simp add: setupSSE_def)

lemma setupSSE_streaming:
  assumes "isSseRequest req" and "untouched res"
  shows "\<exists>res'. setupSSE req res = Return True res' \<and> streaming res'"
  using assms
  by (simp add: setupSSE_def untouched_def streaming_def res_setHeader_def res_flushHeaders_def
      send_head_def res_get_def update_conv')


section \<open>Lemmas about the handlers\<close>

lemma cors_passes:
  assumes "m \<noteq> ''OPTIONS''"
  obtains res where "cors m new_response = Return True res" and "untouched res"
  using cors_untouched [OF assms] by blast

lemma post_mcp_plain:
  assumes "\<not> isSseRequest req"
  obtains res where "untouched res"
    and "post_mcp w req =
         (case mcp_try w (get_property (Some (body req)) ''context_id'')
                 (get_property (Some (body req)) ''params'') False res of
            Return u r \<Rightarrow> Return u r
          | Throw e r \<Rightarrow> mcp_catch False e r)"
proof -
  have "''POST'' \<noteq> ''OPTIONS''" by simp
  then obtain res where "cors ''POST'' new_response = Return True res" and "untouched res"
    by (rule cors_passes)
  with assms that [of res] show thesis
    by (simp add: post_mcp_def mcp_post_def setupSSE_plain Let_def)
qed

lemma post_mcp_sse:
  assumes "isSseRequest req"
  obtains res where "streaming res"
    and "post_mcp w req =
         (case mcp_try w (get_property (Some (body req)) ''context_id'')
                 (get_property (Some (body req)) ''params'') True res of
            Return u r \<Rightarrow> Return u r
          | Throw e r \<Rightarrow> mcp_catch True e r)"
proof -
  have "''POST'' \<noteq> ''OPTIONS''" by simp
  then obtain res0 where cors: "cors ''POST'' new_response = Return True res0" and "untouched res0"
    by (rule cors_passes)
  with setupSSE_streaming [OF assms] obtain res
    where "setupSSE req res0 = Return True res" and "streaming res" by blast
  with cors that [of res] show thesis
    by (simp add: post_mcp_def mcp_post_def Let_def)
qed

lemma plain_json:
  assumes "untouched res"
  shows "plain_reply (res_json obj (res_status code res)) code obj"
  using assms by (intro res_json_unsent) (simp_all add: untouched_def)

lemma plain_json_200:
  assumes "untouched res"
  shows "plain_reply (res_json obj res) 200 obj"
proof -
  from assms have "res_status 200 res = res" by (simp add: res_status_def untouched_def)
  with plain_json [OF assms, of obj 200] show ?thesis by simp
qed

lemma plain_reply_Return:
  "plain_reply out status payload \<Longrightarrow>
   (case out of Return u r \<Rightarrow> Return u r | Throw e r \<Rightarrow> f e r) = out"
  by (cases out) (simp_all add: plain_reply_def)

lemma sse_reply_Return:
  "sse_reply out status payload \<Longrightarrow>
   (case out of Return u r \<Rightarrow> Return u r | Throw e r \<Rightarrow> f e r) = out"
  by (cases out) (simp_all add: sse_reply_def)

text \<open>
  Under SSE a branch that answers with \<^verbatim>\<open>res.status(..).json(..)\<close> throws, and the
  \<^verbatim>\<open>catch\<close> block answers with the frame of an internal error.
\<close>

lemma sse_json_caught:
  assumes "streaming res"
  shows "sse_reply
           (case res_json obj (res_status code res) of
              Return u r \<Rightarrow> Return u r
            | Throw e r \<Rightarrow> mcp_catch True e r)
           200 (ErrorEnvelope ''Internal server error'')"
proof -
  from assms have sent: "headersSent res" by (simp add: streaming_def)
  from frame_streaming [OF streaming_status [OF assms]] show ?thesis
    by (simp add: res_json_sent [OF sent] mcp_catch_def)
qed

lemma sse_json_statusCode:
  assumes "streaming res"
  shows "statusCode (response_of
           (case res_json obj (res_status code res) of
              Return u r \<Rightarrow> Return u r
            | Throw e r \<Rightarrow> mcp_catch True e r)) = code"
proof -
  from assms have sent: "headersSent res" by (simp add: streaming_def)
  show ?thesis
    unfolding res_json_sent [OF sent]
    by (simp add: mcp_catch_def res_status_def res_end_def res_write_def send_head_def sent)
qed

lemma send_responseData_plain:
  assumes "untouched res"
  shows "plain_reply (send_responseData False content format res) 200 (ContextResponse content format)"
  using plain_json_200 [OF assms] by (simp add: send_responseData_def)

lemma send_responseData_sse:
  assumes "streaming res"
  shows "sse_reply (send_responseData True content format res) 200 (ContextResponse content format)"
  using frame_streaming [OF assms] by (simp add: send_responseData_def)

text \<open>What a successful branch delivers, in either envelope.\<close>

lemma delivered:
  assumes "\<And>isSse res. mcp_try w (get_property (Some (body req)) ''context_id'')
             (get_property (Some (body req)) ''params'') isSse res =
           send_responseData isSse content format res"
  shows "if isSseRequest req
         then sse_reply (post_mcp w req) 200 (ContextResponse content format)
         else plain_reply (post_mcp w req) 200 (ContextResponse content format)"
proof (cases "isSseRequest req")
  case True
  then obtain res where "streaming res"
    and "post_mcp w req =
         (case mcp_try w (get_property (Some (body req)) ''context_id'')
                 (get_property (Some (body req)) ''params'') True res of
            Return u r \<Rightarrow> Return u r
          | Throw e r \<Rightarrow> mcp_catch True e r)"
    by (rule post_mcp_sse)
  with True send_responseData_sse [of res content format] show ?thesis
    by (simp add: assms sse_reply_Return)
next
  case False
  then obtain res where "untouched res"
    and "post_mcp w req =
         (case mcp_try w (get_property (Some (body req)) ''context_id'')
                 (get_property (Some (body req)) ''params'') False res of
            Return u r \<Rightarrow> Return u r
          | Throw e r \<Rightarrow> mcp_catch False e r)"
    by (rule post_mcp_plain)
  with False send_responseData_plain [of res content format] show ?thesis
    by (simp add: assms plain_reply_Return)
qed

text \<open>What a \<^verbatim>\<open>res.status(code).json(payload)\<close> branch does with a plain request.\<close>

lemma answered_plain:
  assumes "\<not> isSseRequest req"
    and "\<And>res. mcp_try w (get_property (Some (body req)) ''context_id'')
             (get_property (Some (body req)) ''params'') False res =
           res_json payload (res_status code res)"
  shows "plain_reply (post_mcp w req) code payload"
proof -
  from assms(1) obtain res where "untouched res"
    and "post_mcp w req =
         (case mcp_try w (get_property (Some (body req)) ''context_id'')
                 (get_property (Some (body req)) ''params'') False res of
            Return u r \<Rightarrow> Return u r
          | Throw e r \<Rightarrow> mcp_catch False e r)"
    by (rule post_mcp_plain)
  with plain_json [of res payload code] show ?thesis
    by (simp add: assms(2) plain_reply_Return)
qed

text \<open>The same branch with a request that negotiated SSE.\<close>

lemma answered_sse:
  assumes "isSseRequest req"
    and "\<And>res. mcp_try w (get_property (Some (body req)) ''context_id'')
             (get_property (Some (body req)) ''params'') True res =
           res_json payload (res_status code res)"
  shows "sse_reply (post_mcp w req) 200 (ErrorEnvelope ''Internal server error'')"
    and "statusCode (response_of (post_mcp w req)) = code"
proof -
  from assms(1) obtain res where res: "streaming res"
    and run: "post_mcp w req =
         (case mcp_try w (get_property (Some (body req)) ''context_id'')
                 (get_property (Some (body req)) ''params'') True res of
            Return u r \<Rightarrow> Return u r
          | Throw e r \<Rightarrow> mcp_catch True e r)"
    by (rule post_mcp_sse)
  from run sse_json_caught [OF res, of payload code]
  show "sse_reply (post_mcp w req) 200 (ErrorEnvelope ''Internal server error'')"
    by (simp add: assms(2))
  from run sse_json_statusCode [OF res, of payload code]
  show "statusCode (response_of (post_mcp w req)) = code"
    by (simp add: assms(2))
qed

text \<open>The JSON text of an error envelope.\<close>

lemma stringify_error:
  \<open>JSON_stringify (ErrorEnvelope message) = ''{"error":'' @ quote message @ ''}''\<close>
  by (simp add: JSON_stringify.simps quote_def quote_char_def)

lemma quote_char_plain:
  "c \<noteq> CHR 0x22 \<Longrightarrow> c \<noteq> CHR 0x5C \<Longrightarrow> 32 \<le> (of_char c :: nat) \<Longrightarrow> quote_char c = [c]"
  by (auto simp add: quote_char_def)

lemma concat_quote_plain:
  "\<forall>c\<in>set s. c \<noteq> CHR 0x22 \<and> c \<noteq> CHR 0x5C \<and> 32 \<le> (of_char c :: nat) \<Longrightarrow>
   concat (map quote_char s) = s"
  by (induction s) (simp_all add: quote_char_plain)

lemma quote_embedded:
  assumes "\<forall>c\<in>set s. c \<noteq> CHR 0x22 \<and> c \<noteq> CHR 0x5C \<and> 32 \<le> (of_char c :: nat)"
    and "concat (map quote_char pre) = pre" and "concat (map quote_char post) = post"
  shows "quote (pre @ s @ post) = CHR 0x22 # pre @ s @ post @ [CHR 0x22]"
  using assms by (simp add: quote_def concat_quote_plain)

lemma startsWith_prefix: "startsWith s t = prefix t s"
  by (induction s t rule: startsWith.induct) auto


lemma res_json_statusCode:
  "statusCode (response_of (res_json obj (res_status code res))) = code"
  by (cases "headersSent res")
     (simp_all add: res_json_def res_setHeader_def res_status_def res_end_def res_write_def
       send_head_def)

lemma plain_statusCode:
  assumes "\<not> isSseRequest req"
    and "\<And>res. mcp_try w (get_property (Some (body req)) ''context_id'')
             (get_property (Some (body req)) ''params'') False res =
           res_json payload (res_status code res)"
  shows "statusCode (response_of (post_mcp w req)) = code"
proof -
  from assms(1) obtain res where res: "untouched res"
    and run: "post_mcp w req =
         (case mcp_try w (get_property (Some (body req)) ''context_id'')
                 (get_property (Some (body req)) ''params'') False res of
            Return u r \<Rightarrow> Return u r
          | Throw e r \<Rightarrow> mcp_catch False e r)"
    by (rule post_mcp_plain)
  from plain_json [OF res, of payload code] run have "post_mcp w req = res_json payload (res_status code res)"
    by (simp add: assms(2) plain_reply_Return)
  then show ?thesis by (simp add: res_json_statusCode)
qed

section \<open>The branches of the dispatcher\<close>

lemma try_missing_post_id:
  assumes "context_id = Some (JStr ''blog_post_content'')"
    and "\<not> js_truthy params \<or> \<not> js_truthy (get_property params ''post_id'')"
  shows "mcp_try w context_id params isSse res =
         res_json
           (ErrorEnvelope (''Missing required parameter '' @ [APOS] @ ''post_id'' @ [APOS]
              @ '' for context '' @ [APOS] @ ''blog_post_content'' @ [APOS]))
           (res_status 400 res)"
  using assms by (auto simp add: mcp_try_def)

lemma try_post_not_found:
  assumes "context_id = Some (JStr ''blog_post_content'')"
    and "js_truthy params" and "js_truthy (get_property params ''post_id'')"
    and "template (get_property params ''post_id'') = Inr name"
    and "getBlogPostContent w (get_property params ''post_id'') = Inr None \<or>
         getBlogPostContent w (get_property params ''post_id'') = Inr (Some [])"
  shows "mcp_try w context_id params isSse res =
         res_json
           (ErrorEnvelope (''Blog post with id '' @ [APOS] @ name @ [APOS] @ '' not found''))
           (res_status 404 res)"
  using assms by (auto simp add: mcp_try_def Let_def)

lemma try_unknown_context:
  assumes "js_truthy context_id"
    and "template context_id = Inr name"
    and "context_id \<noteq> Some (JStr ''profile'')"
    and "context_id \<noteq> Some (JStr ''blog_posts_list'')"
    and "context_id \<noteq> Some (JStr ''blog_post_content'')"
  shows "mcp_try w context_id params isSse res =
         res_json
           (ErrorEnvelope (''Context with id '' @ [APOS] @ name @ [APOS] @ '' not found''))
           (res_status 404 res)"
  using assms by (simp add: mcp_try_def)

lemma try_unprintable_context:
  assumes "js_truthy context_id" and "template context_id = Inl e"
  shows "mcp_try w context_id params isSse res = Throw e res"
  using assms by (simp add: mcp_try_def)

lemma try_profile:
  assumes "context_id = Some (JStr ''profile'')" and "getUserProfile w = Inr userProfile"
  shows "mcp_try w context_id params isSse res =
         send_responseData isSse (JSON_stringify userProfile) ''application/json'' res"
  using assms by (simp add: mcp_try_def)

lemma try_blog_posts_list:
  assumes "context_id = Some (JStr ''blog_posts_list'')" and "getBlogPosts w = Inr posts"
  shows "mcp_try w context_id params isSse res =
         send_responseData isSse (JSON_stringify posts) ''application/json'' res"
  using assms by (simp add: mcp_try_def)

lemma try_blog_post_content:
  assumes "context_id = Some (JStr ''blog_post_content'')"
    and "js_truthy params" and "js_truthy (get_property params ''post_id'')"
    and "getBlogPostContent w (get_property params ''post_id'') = Inr (Some content)"
    and "content \<noteq> []"
  shows "mcp_try w context_id params isSse res =
         send_responseData isSse content ''text/markdown'' res"
  using assms by (simp add: mcp_try_def Let_def)

section \<open>The data-access helpers\<close>

lemma getUserProfile_returns: "\<exists>profile. getUserProfile w = Inr profile"
  by (simp add: getUserProfile_def split: sum.split)

lemma getBlogPosts_returns: "\<exists>posts. getBlogPosts w = Inr posts"
  by (simp add: getBlogPosts_def split: sum.split)

text \<open>A post id that converts to a string never makes the helper reject.\<close>

lemma getBlogPostContent_returns:
  assumes "template postId = Inr name"
  shows "\<exists>content. getBlogPostContent w postId = Inr content"
  using assms by (simp add: getBlogPostContent_def split: sum.split)

text \<open>When the helper returns, the post id converted to a string.\<close>

lemma getBlogPostContent_printed:
  assumes "getBlogPostContent w postId = Inr content"
  obtains name where "template postId = Inr name"
  using assms
  by (cases "template postId")
     (simp_all add: getBlogPostContent_def getBlogPostContent_try_def)

lemma getUserProfile_fallback:
  assumes "readFile w [''data'', ''profile.json''] = Inl e \<or>
           (\<exists>text. readFile w [''data'', ''profile.json''] = Inr text \<and> JSON_parse w text = Inl e)"
  shows "getUserProfile w = Inr default_profile"
  using assms by (auto simp add: getUserProfile_def getUserProfile_try_def)

lemma getBlogPosts_fallback:
  assumes "readFile w [''data'', ''posts'', ''index.json''] = Inl e \<or>
           (\<exists>text. readFile w [''data'', ''posts'', ''index.json''] = Inr text \<and>
              JSON_parse w text = Inl e)"
  shows "getBlogPosts w = Inr default_posts"
  using assms by (auto simp add: getBlogPosts_def getBlogPosts_try_def)

lemma getBlogPostContent_absent:
  assumes "template postId = Inr name"
    and "readFile w [''data'', ''posts'', name @ ''.md''] = Inl e"
  shows "getBlogPostContent w postId = Inr None"
  using assms by (simp add: getBlogPostContent_def getBlogPostContent_try_def)

text \<open>
  Past the presence test the dispatcher does one of three things, whatever
  the envelope: it delivers a content, it answers with
  \<^verbatim>\<open>res.status(..).json(..)\<close>, or it throws.
\<close>

lemma try_cases:
  assumes "js_truthy context_id"
  obtains (delivers) content format
      where "\<And>isSse res. mcp_try w context_id params isSse res =
               send_responseData isSse content format res"
    | (answers) payload code
      where "\<And>isSse res. mcp_try w context_id params isSse res =
               res_json payload (res_status code res)"
    | (throws) e
      where "\<And>isSse res. mcp_try w context_id params isSse res = Throw e res"
proof (cases "template context_id")
  case (Inl e)
  with assms have "mcp_try w context_id params isSse res = Throw e res" for isSse res
    by (rule try_unprintable_context)
  then show thesis by (rule throws)
next
  case (Inr name)
  consider (profile) "context_id = Some (JStr ''profile'')"
    | (list) "context_id = Some (JStr ''blog_posts_list'')"
    | (post) "context_id = Some (JStr ''blog_post_content'')"
    | (unknown) "context_id \<noteq> Some (JStr ''profile'')"
        "context_id \<noteq> Some (JStr ''blog_posts_list'')"
        "context_id \<noteq> Some (JStr ''blog_post_content'')"
    by blast
  then show thesis
  proof cases
    case profile
    obtain userProfile where "getUserProfile w = Inr userProfile"
      using getUserProfile_returns by blast
    with profile have "mcp_try w context_id params isSse res =
        send_responseData isSse (JSON_stringify userProfile) ''application/json'' res" for isSse res
      by (rule try_profile)
    then show thesis by (rule delivers)
  next
    case list
    obtain posts where "getBlogPosts w = Inr posts"
      using getBlogPosts_returns by blast
    with list have "mcp_try w context_id params isSse res =
        send_responseData isSse (JSON_stringify posts) ''application/json'' res" for isSse res
      by (rule try_blog_posts_list)
    then show thesis by (rule delivers)
  next
    case unknown
    with assms Inr have "mcp_try w context_id params isSse res =
        res_json
          (ErrorEnvelope (''Context with id '' @ [APOS] @ name @ [APOS] @ '' not found''))
          (res_status 404 res)" for isSse res
      by (intro try_unknown_context)
    then show thesis by (rule answers)
  next
    case post
    show thesis
    proof (cases "js_truthy params \<and> js_truthy (get_property params ''post_id'')")
      case False
      then have "\<not> js_truthy params \<or> \<not> js_truthy (get_property params ''post_id'')" by simp
      with post have "mcp_try w context_id params isSse res =
          res_json
            (ErrorEnvelope (''Missing required parameter '' @ [APOS] @ ''post_id'' @ [APOS]
               @ '' for context '' @ [APOS] @ ''blog_post_content'' @ [APOS]))
            (res_status 400 res)" for isSse res
        by (rule try_missing_post_id)
      then show thesis by (rule answers)
    next
      case True
      then have params: "js_truthy params" and id: "js_truthy (get_property params ''post_id'')"
        by simp_all
      show thesis
      proof (cases "getBlogPostContent w (get_property params ''post_id'')")
        case (Inl e)
        with post params id
        have "mcp_try w context_id params isSse res = Throw e res" for isSse res
          by (simp add: mcp_try_def Let_def)
        then show thesis by (rule throws)
      next
        case returned: (Inr content)
        then obtain name where name: "template (get_property params ''post_id'') = Inr name"
          by (rule getBlogPostContent_printed)
        show thesis
        proof (cases "content = None \<or> content = Some []")
          case True
          with returned
          have "getBlogPostContent w (get_property params ''post_id'') = Inr None \<or>
              getBlogPostContent w (get_property params ''post_id'') = Inr (Some [])"
            by auto
          with post params id name have "mcp_try w context_id params isSse res =
              res_json
                (ErrorEnvelope (''Blog post with id '' @ [APOS] @ name @ [APOS] @ '' not found''))
                (res_status 404 res)" for isSse res
            by (intro try_post_not_found)
          then show thesis by (rule answers)
        next
          case False
          then obtain markdown where "content = Some markdown" and "markdown \<noteq> []" by (cases content) auto
          with returned post params id have "mcp_try w context_id params isSse res =
              send_responseData isSse markdown ''text/markdown'' res" for isSse res
            by (intro try_blog_post_content) simp_all
          then show thesis by (rule delivers)
        qed
      qed
    qed
  qed
qed

section \<open>Negotiation and the missing context id\<close>

lemma missing_context_id_reply:
  assumes "\<not> js_truthy (get_property (Some (body req)) ''context_id'')"
  shows "negotiated_reply req (post_mcp w req) 400 (ErrorEnvelope ''context_id is required'')"
proof (cases "isSseRequest req")
  case True
  then obtain res where res: "streaming res"
    and run: "post_mcp w req =
       (case mcp_try w (get_property (Some (body req)) ''context_id'')
               (get_property (Some (body req)) ''params'') True res of
          Return u r \<Rightarrow> Return u r
        | Throw e r \<Rightarrow> mcp_catch True e r)"
    by (rule post_mcp_sse)
  from assms have "mcp_try w (get_property (Some (body req)) ''context_id'')
      (get_property (Some (body req)) ''params'') True res =
      Return () (res_end (res_write
        (''data: '' @ JSON_stringify (ErrorEnvelope ''context_id is required'') @ [LF, LF]) res))"
    by (simp add: mcp_try_def)
  with run frame_streaming [OF res, of "ErrorEnvelope ''context_id is required''"] True
  show ?thesis by (simp add: negotiated_reply_def)
next
  case False
  from assms have "\<And>res. mcp_try w (get_property (Some (body req)) ''context_id'')
      (get_property (Some (body req)) ''params'') False res =
      res_json (ErrorEnvelope ''context_id is required'') (res_status 400 res)"
    by (simp add: mcp_try_def)
  with False show ?thesis
    by (simp add: negotiated_reply_def answered_plain)
qed

text \<open>
  Claim C1, as amended. A \<^verbatim>\<open>POST /mcp\<close> request whose body has no (or a falsy)
  \<^verbatim>\<open>context_id\<close> is answered with the payload \<^verbatim>\<open>{"error":"context_id is required"}\<close>
  in the negotiated envelope: as a plain JSON body with status 400, or as one
  SSE frame, which carries status 200.
\<close>

theorem C1_missing_context_id:
  assumes "\<not> js_truthy (get_property (Some (body req)) ''context_id'')"
  shows \<open>negotiated_reply req (post_mcp w req) 400 (ErrorEnvelope ''context_id is required'') \<and>
         JSON_stringify (ErrorEnvelope ''context_id is required'') =
           ''{"error":"context_id is required"}''\<close>
proof
  from assms
  show "negotiated_reply req (post_mcp w req) 400 (ErrorEnvelope ''context_id is required'')"
    by (rule missing_context_id_reply)
  show \<open>JSON_stringify (ErrorEnvelope ''context_id is required'') =
      ''{"error":"context_id is required"}''\<close>
    by (simp add: stringify_error quote_def quote_char_def)
qed

theorem C1_missing_context_id_witness:
  "\<not> js_truthy (get_property (Some (body (sse_request (JObj [])))) ''context_id'') \<and>
   sse_reply (post_mcp no_files (sse_request (JObj []))) 200
     (ErrorEnvelope ''context_id is required'') \<and>
   \<not> js_truthy (get_property (Some (body (json_request (JObj [])))) ''context_id'') \<and>
   plain_reply (post_mcp no_files (json_request (JObj []))) 400
     (ErrorEnvelope ''context_id is required'')"
  using C1_missing_context_id [of "sse_request (JObj [])" no_files]
    C1_missing_context_id [of "json_request (JObj [])" no_files]
  by (simp add: negotiated_reply_def isSseRequest_def sse_request_def json_request_def)

text \<open>
  The claim as stated fails for a request that negotiated SSE: its status line
  was sent with the flushed header block and is 200, not 400.
\<close>

theorem C1_counterexample:
  "statusLine (response_of (post_mcp no_files (sse_request (JObj [])))) = Some 200 \<and>
   statusLine (response_of (post_mcp no_files (sse_request (JObj [])))) \<noteq> Some 400"
proof -
  have sse: "isSseRequest (sse_request (JObj []))"
    by (simp add: isSseRequest_def sse_request_def)
  then obtain res where res: "streaming res"
    and run: "post_mcp no_files (sse_request (JObj [])) =
         (case mcp_try no_files (get_property (Some (body (sse_request (JObj [])))) ''context_id'')
                 (get_property (Some (body (sse_request (JObj [])))) ''params'') True res of
            Return u r \<Rightarrow> Return u r
          | Throw e r \<Rightarrow> mcp_catch True e r)"
    by (rule post_mcp_sse)
  from res have "statusLine (response_of (post_mcp no_files (sse_request (JObj [])))) = Some 200"
    unfolding run
    by (simp add: sse_request_def mcp_try_def streaming_def res_end_def res_write_def send_head_def)
  then show ?thesis by simp
qed

section \<open>The branches that bypass the negotiation\<close>

text \<open>
  A request that negotiated SSE and reaches one of the three branches answering
  with \<^verbatim>\<open>res.status(..).json(..)\<close> gets status 200 and the frame of an internal
  error, whatever the branch meant to report.
\<close>

lemma sse_unknown_context:
  assumes "isSseRequest req"
    and "js_truthy (get_property (Some (body req)) ''context_id'')"
    and "template (get_property (Some (body req)) ''context_id'') = Inr name"
    and "get_property (Some (body req)) ''context_id'' \<noteq> Some (JStr ''profile'')"
    and "get_property (Some (body req)) ''context_id'' \<noteq> Some (JStr ''blog_posts_list'')"
    and "get_property (Some (body req)) ''context_id'' \<noteq> Some (JStr ''blog_post_content'')"
  shows "sse_reply (post_mcp w req) 200 (ErrorEnvelope ''Internal server error'')"
  using assms(1) by (rule answered_sse) (rule try_unknown_context [OF assms(2-6)])

lemma sse_missing_post_id:
  assumes "isSseRequest req"
    and "get_property (Some (body req)) ''context_id'' = Some (JStr ''blog_post_content'')"
    and "\<not> js_truthy (get_property (Some (body req)) ''params'') \<or>
         \<not> js_truthy (get_property (get_property (Some (body req)) ''params'') ''post_id'')"
  shows "sse_reply (post_mcp w req) 200 (ErrorEnvelope ''Internal server error'')"
  using assms(1) by (rule answered_sse) (rule try_missing_post_id [OF assms(2,3)])

lemma sse_post_not_found:
  assumes "isSseRequest req"
    and "get_property (Some (body req)) ''context_id'' = Some (JStr ''blog_post_content'')"
    and "js_truthy (get_property (Some (body req)) ''params'')"
    and "js_truthy (get_property (get_property (Some (body req)) ''params'') ''post_id'')"
    and "template (get_property (get_property (Some (body req)) ''params'') ''post_id'') = Inr name"
    and "getBlogPostContent w (get_property (get_property (Some (body req)) ''params'') ''post_id'')
           = Inr None \<or>
         getBlogPostContent w (get_property (get_property (Some (body req)) ''params'') ''post_id'')
           = Inr (Some [])"
  shows "sse_reply (post_mcp w req) 200 (ErrorEnvelope ''Internal server error'')"
  using assms(1) by (rule answered_sse) (rule try_post_not_found [OF assms(2-6)])

text \<open>
  A context id that passes the presence test but cannot be converted to a
  string makes the request log throw; a plain request is then answered with
  status 500.
\<close>

lemma plain_unprintable_context:
  assumes "\<not> isSseRequest req"
    and "js_truthy (get_property (Some (body req)) ''context_id'')"
    and "template (get_property (Some (body req)) ''context_id'') = Inl e"
  shows "plain_reply (post_mcp w req) 500 (ErrorEnvelope ''Internal server error'')"
proof -
  from assms(1) obtain res where res: "untouched res"
    and run: "post_mcp w req =
         (case mcp_try w (get_property (Some (body req)) ''context_id'')
                 (get_property (Some (body req)) ''params'') False res of
            Return u r \<Rightarrow> Return u r
          | Throw e r \<Rightarrow> mcp_catch False e r)"
    by (rule post_mcp_plain)
  from run plain_json [OF res, of "ErrorEnvelope ''Internal server error''" 500]
  show ?thesis
    by (simp add: try_unprintable_context [OF assms(2,3)] mcp_catch_def)
qed

text \<open>
  Whatever the request, the response leaves in the envelope that was
  negotiated: under SSE it is one frame with status 200, otherwise a plain
  JSON reply. What the three answering branches lose under SSE is the outcome
  they meant to report, not the envelope.
\<close>

lemma envelope_always_negotiated:
  "\<exists>status payload. negotiated_reply req (post_mcp w req) status payload"
proof (cases "js_truthy (get_property (Some (body req)) ''context_id'')")
  case False
  then have "negotiated_reply req (post_mcp w req) 400 (ErrorEnvelope ''context_id is required'')"
    by (rule missing_context_id_reply)
  then show ?thesis by blast
next
  case True
  then show ?thesis
  proof (cases rule: try_cases [where w = w and params = "get_property (Some (body req)) ''params''"])
    case (delivers content format)
    then have "if isSseRequest req
        then sse_reply (post_mcp w req) 200 (ContextResponse content format)
        else plain_reply (post_mcp w req) 200 (ContextResponse content format)"
      by (rule delivered)
    then show ?thesis unfolding negotiated_reply_def by blast
  next
    case (answers payload code)
    show ?thesis
    proof (cases "isSseRequest req")
      case True
      then have "sse_reply (post_mcp w req) 200 (ErrorEnvelope ''Internal server error'')"
        by (rule answered_sse) (rule answers)
      with True show ?thesis by (auto simp add: negotiated_reply_def)
    next
      case False
      then have "plain_reply (post_mcp w req) code payload"
        by (rule answered_plain) (rule answers)
      with False show ?thesis by (auto simp add: negotiated_reply_def)
    qed
  next
    case (throws e)
    show ?thesis
    proof (cases "isSseRequest req")
      case True
      then obtain res where res: "streaming res"
        and run: "post_mcp w req =
             (case mcp_try w (get_property (Some (body req)) ''context_id'')
                     (get_property (Some (body req)) ''params'') True res of
                Return u r \<Rightarrow> Return u r
              | Throw e r \<Rightarrow> mcp_catch True e r)"
        by (rule post_mcp_sse)
      from run frame_streaming [OF res, of "ErrorEnvelope ''Internal server error''"]
      have "sse_reply (post_mcp w req) 200 (ErrorEnvelope ''Internal server error'')"
        by (simp add: throws mcp_catch_def)
      with True show ?thesis by (auto simp add: negotiated_reply_def)
    next
      case False
      then obtain res where res: "untouched res"
        and run: "post_mcp w req =
             (case mcp_try w (get_property (Some (body req)) ''context_id'')
                     (get_property (Some (body req)) ''params'') False res of
                Return u r \<Rightarrow> Return u r
              | Throw e r \<Rightarrow> mcp_catch False e r)"
        by (rule post_mcp_plain)
      from run plain_json [OF res, of "ErrorEnvelope ''Internal server error''" 500]
      have "plain_reply (post_mcp w req) 500 (ErrorEnvelope ''Internal server error'')"
        by (simp add: throws mcp_catch_def)
      with False show ?thesis by (auto simp add: negotiated_reply_def)
    qed
  qed
qed

lemma internal_error_text:
  \<open>JSON_stringify (ErrorEnvelope ''Internal server error'') = ''{"error":"Internal server error"}''\<close>
  by (simp add: stringify_error quote_def quote_char_def)

lemma sse_request_negotiates: "isSseRequest (sse_request b)"
  by (simp add: isSseRequest_def sse_request_def)

lemma json_request_plain: "\<not> isSseRequest (json_request b)"
  by (simp add: isSseRequest_def json_request_def)

text \<open>
  Claim C2 at a request the code mishandles. An SSE request for an unknown
  context does not receive the not-found outcome in its envelope: the branch
  calls \<^verbatim>\<open>res.json\<close> after the header block was flushed, the call throws, and
  the \<^verbatim>\<open>catch\<close> block delivers an internal error. The same body sent as a plain
  request receives the not-found outcome.
\<close>

theorem C2_sse_unknown_context:
  "sse_reply (post_mcp no_files (sse_request (JObj [(''context_id'', JStr ''weather'')]))) 200
     (ErrorEnvelope ''Internal server error'') \<and>
   plain_reply (post_mcp no_files (json_request (JObj [(''context_id'', JStr ''weather'')]))) 404
     (ErrorEnvelope (''Context with id '' @ [APOS] @ ''weather'' @ [APOS] @ '' not found''))"
proof
  show "sse_reply (post_mcp no_files (sse_request (JObj [(''context_id'', JStr ''weather'')]))) 200
     (ErrorEnvelope ''Internal server error'')"
    by (rule sse_unknown_context [where name = "''weather''"])
       (simp_all add: sse_request_negotiates, simp_all add: sse_request_def)
  show "plain_reply (post_mcp no_files (json_request (JObj [(''context_id'', JStr ''weather'')]))) 404
     (ErrorEnvelope (''Context with id '' @ [APOS] @ ''weather'' @ [APOS] @ '' not found''))"
    by (rule answered_plain [OF json_request_plain], rule try_unknown_context)
       (simp_all add: json_request_def)
qed

text \<open>
  Claim C3 at a request the code mishandles. For a post request without
  \<^verbatim>\<open>params\<close> the plain body is the missing-parameter error, while the frame
  of the SSE response holds an internal error: the payloads differ.
\<close>

theorem C3_payloads_differ:
  \<open>written (response_of (post_mcp no_files
      (json_request (JObj [(''context_id'', JStr ''blog_post_content'')])))) =
     ''{"error":"Missing required parameter 'post_id' for context 'blog_post_content'' @ [APOS] @ ''"}'' \<and>
   written (response_of (post_mcp no_files
      (sse_request (JObj [(''context_id'', JStr ''blog_post_content'')])))) =
     ''data: {"error":"Internal server error"}'' @ [LF, LF] \<and>
   written (response_of (post_mcp no_files
      (sse_request (JObj [(''context_id'', JStr ''blog_post_content'')])))) \<noteq>
     ''data: '' @ written (response_of (post_mcp no_files
        (json_request (JObj [(''context_id'', JStr ''blog_post_content'')])))) @ [LF, LF]\<close>
proof -
  have "plain_reply (post_mcp no_files
      (json_request (JObj [(''context_id'', JStr ''blog_post_content'')]))) 400
      (ErrorEnvelope (''Missing required parameter '' @ [APOS] @ ''post_id'' @ [APOS]
         @ '' for context '' @ [APOS] @ ''blog_post_content'' @ [APOS]))"
    by (rule answered_plain [OF json_request_plain], rule try_missing_post_id)
       (simp_all add: json_request_def)
  then have plain: \<open>written (response_of (post_mcp no_files
      (json_request (JObj [(''context_id'', JStr ''blog_post_content'')])))) =
     ''{"error":"Missing required parameter 'post_id' for context 'blog_post_content'' @ [APOS] @ ''"}''\<close>
    by (simp add: plain_reply_def stringify_error quote_def quote_char_def)
  have "sse_reply (post_mcp no_files
      (sse_request (JObj [(''context_id'', JStr ''blog_post_content'')]))) 200
      (ErrorEnvelope ''Internal server error'')"
    by (rule sse_missing_post_id) (simp_all add: sse_request_negotiates, simp_all add: sse_request_def)
  then have sse: \<open>written (response_of (post_mcp no_files
      (sse_request (JObj [(''context_id'', JStr ''blog_post_content'')])))) =
     ''data: {"error":"Internal server error"}'' @ [LF, LF]\<close>
    by (simp add: sse_reply_def internal_error_text)
  from plain sse show ?thesis by simp
qed

section \<open>Metadata\<close>

text \<open>
  The \<^verbatim>\<open>root_url\<close> member as \<^verbatim>\<open>getMcpMetadata\<close> computes it from the protocol
  and the host of a request.
\<close>

lemma root_url_computed:
  "get_property (Some (getMcpMetadata w req)) ''root_url'' =
     Some (JStr ((if protocol req = ''http'' \<and> prefix ''localhost'' (request_host w req)
                  then ''http'' else ''https'') @ ''://'' @ request_host w req))"
  by (simp add: getMcpMetadata_def rootUrl_def scheme_def startsWith_prefix)

text \<open>
  Claim C4. The application's only listener is \<^verbatim>\<open>app.listen\<close>, a plain HTTP
  server, and it does not enable \<^verbatim>\<open>trust proxy\<close>, so \<^verbatim>\<open>req.protocol\<close> is \<^verbatim>\<open>http\<close>
  for every request it serves. For every such request the \<^verbatim>\<open>root_url\<close> of the
  metadata document is \<^verbatim>\<open>{scheme}://{host}\<close>, where the scheme is \<^verbatim>\<open>http\<close> if and
  only if the host begins with \<^verbatim>\<open>localhost\<close>, and \<^verbatim>\<open>https\<close> otherwise. A host that
  does not begin with \<^verbatim>\<open>localhost\<close> gets \<^verbatim>\<open>https\<close> whatever the protocol of the
  request. The two examples of the specification hold.
\<close>

theorem C4_root_url:
  "(protocol req = ''http'' \<longrightarrow>
      get_property (Some (getMcpMetadata w req)) ''root_url'' =
        Some (JStr ((if prefix ''localhost'' (request_host w req) then ''http'' else ''https'')
                    @ ''://'' @ request_host w req))) \<and>
   (\<not> prefix ''localhost'' (request_host w req) \<longrightarrow>
      get_property (Some (getMcpMetadata w req)) ''root_url'' =
        Some (JStr (''https://'' @ request_host w req))) \<and>
   get_property (Some (getMcpMetadata w (describe_request ''localhost:3000'' ''http''))) ''root_url'' =
     Some (JStr ''http://localhost:3000'') \<and>
   get_property (Some (getMcpMetadata w (describe_request ''example.com'' ''http''))) ''root_url'' =
     Some (JStr ''https://example.com'')"
proof (intro conjI impI)
  assume "protocol req = ''http''"
  then show "get_property (Some (getMcpMetadata w req)) ''root_url'' =
      Some (JStr ((if prefix ''localhost'' (request_host w req) then ''http'' else ''https'')
                  @ ''://'' @ request_host w req))"
    by (simp add: root_url_computed)
next
  assume "\<not> prefix ''localhost'' (request_host w req)"
  then show "get_property (Some (getMcpMetadata w req)) ''root_url'' =
      Some (JStr (''https://'' @ request_host w req))"
    by (simp add: root_url_computed)
next
  show "get_property (Some (getMcpMetadata w (describe_request ''localhost:3000'' ''http''))) ''root_url'' =
     Some (JStr ''http://localhost:3000'')"
    by (simp add: root_url_computed request_host_def describe_request_def)
  show "get_property (Some (getMcpMetadata w (describe_request ''example.com'' ''http''))) ''root_url'' =
     Some (JStr ''https://example.com'')"
    by (simp add: root_url_computed request_host_def describe_request_def)
qed

theorem C4_root_url_witness:
  "protocol (describe_request ''localhost:3000'' ''http'') = ''http'' \<and>
   prefix ''localhost'' (request_host no_files (describe_request ''localhost:3000'' ''http'')) \<and>
   get_property (Some (getMcpMetadata no_files (describe_request ''localhost:3000'' ''http'')))
     ''root_url'' = Some (JStr ''http://localhost:3000'') \<and>
   protocol (describe_request ''example.com'' ''http'') = ''http'' \<and>
   \<not> prefix ''localhost'' (request_host no_files (describe_request ''example.com'' ''http'')) \<and>
   get_property (Some (getMcpMetadata no_files (describe_request ''example.com'' ''http'')))
     ''root_url'' = Some (JStr ''https://example.com'')"
proof -
  have local: "protocol (describe_request ''localhost:3000'' ''http'') = ''http''"
    "request_host no_files (describe_request ''localhost:3000'' ''http'') = ''localhost:3000''"
    by (simp_all add: describe_request_def request_host_def)
  have other: "protocol (describe_request ''example.com'' ''http'') = ''http''"
    "request_host no_files (describe_request ''example.com'' ''http'') = ''example.com''"
    by (simp_all add: describe_request_def request_host_def)
  from C4_root_url [of "describe_request ''localhost:3000'' ''http''" no_files]
  have "get_property (Some (getMcpMetadata no_files (describe_request ''localhost:3000'' ''http'')))
      ''root_url'' =
      Some (JStr ((if prefix ''localhost'' ''localhost:3000'' then ''http'' else ''https'')
                  @ ''://'' @ ''localhost:3000''))"
    using local by simp
  moreover
  from C4_root_url [of "describe_request ''example.com'' ''http''" no_files]
  have "get_property (Some (getMcpMetadata no_files (describe_request ''example.com'' ''http'')))
      ''root_url'' =
      Some (JStr ((if prefix ''localhost'' ''example.com'' then ''http'' else ''https'')
                  @ ''://'' @ ''example.com''))"
    using other by simp
  ultimately show ?thesis using local other by simp
qed

text \<open>The metadata route delivers the document in the negotiated envelope.\<close>

lemma well_known_reply:
  "negotiated_reply req (get_well_known w req) 200 (getMcpMetadata w req)"
proof -
  have "''GET'' \<noteq> ''OPTIONS''" by simp
  then obtain res where cors: "cors ''GET'' new_response = Return True res" and res: "untouched res"
    by (rule cors_passes)
  show ?thesis
  proof (cases "isSseRequest req")
    case True
    with setupSSE_streaming [OF True res] obtain res'
      where "setupSSE req res = Return True res'" and "streaming res'" by blast
    with cors True frame_streaming [of res' "getMcpMetadata w req"] show ?thesis
      by (simp add: negotiated_reply_def get_well_known_def well_known_def Let_def)
  next
    case False
    with cors plain_json_200 [OF res, of "getMcpMetadata w req"] show ?thesis
      by (simp add: negotiated_reply_def get_well_known_def well_known_def setupSSE_plain Let_def)
  qed
qed

section \<open>Errors of the dispatcher for plain requests\<close>

text \<open>
  Claim C5, as amended. A plain request for \<^verbatim>\<open>blog_post_content\<close> whose
  \<^verbatim>\<open>params\<close> are missing or lack a \<^verbatim>\<open>post_id\<close> is answered with status 400 and
  the missing-parameter error as a plain JSON body.
\<close>

theorem C5_missing_post_id_plain:
  assumes "\<not> isSseRequest req"
    and "get_property (Some (body req)) ''context_id'' = Some (JStr ''blog_post_content'')"
    and "\<not> js_truthy (get_property (Some (body req)) ''params'') \<or>
         \<not> js_truthy (get_property (get_property (Some (body req)) ''params'') ''post_id'')"
  shows \<open>plain_reply (post_mcp w req) 400
           (ErrorEnvelope (''Missing required parameter '' @ [APOS] @ ''post_id'' @ [APOS]
              @ '' for context '' @ [APOS] @ ''blog_post_content'' @ [APOS])) \<and>
         written (response_of (post_mcp w req)) =
           ''{"error":"Missing required parameter 'post_id' for context 'blog_post_content'' @ [APOS] @ ''"}''\<close>
proof -
  have reply: "plain_reply (post_mcp w req) 400
           (ErrorEnvelope (''Missing required parameter '' @ [APOS] @ ''post_id'' @ [APOS]
              @ '' for context '' @ [APOS] @ ''blog_post_content'' @ [APOS]))"
    using assms(1) by (rule answered_plain) (rule try_missing_post_id [OF assms(2,3)])
  then have \<open>written (response_of (post_mcp w req)) =
           ''{"error":"Missing required parameter 'post_id' for context 'blog_post_content'' @ [APOS] @ ''"}''\<close>
    by (simp add: plain_reply_def stringify_error quote_def quote_char_def)
  with reply show ?thesis by simp
qed

theorem C5_missing_post_id_plain_witness:
  \<open>\<not> isSseRequest (json_request (JObj [(''context_id'', JStr ''blog_post_content'')])) \<and>
   get_property (Some (body (json_request (JObj [(''context_id'', JStr ''blog_post_content'')]))))
     ''context_id'' = Some (JStr ''blog_post_content'') \<and>
   \<not> js_truthy (get_property
        (Some (body (json_request (JObj [(''context_id'', JStr ''blog_post_content'')])))) ''params'') \<and>
   plain_reply (post_mcp no_files (json_request (JObj [(''context_id'', JStr ''blog_post_content'')]))) 400
     (ErrorEnvelope (''Missing required parameter '' @ [APOS] @ ''post_id'' @ [APOS]
        @ '' for context '' @ [APOS] @ ''blog_post_content'' @ [APOS])) \<and>
   written (response_of
       (post_mcp no_files (json_request (JObj [(''context_id'', JStr ''blog_post_content'')])))) =
     ''{"error":"Missing required parameter 'post_id' for context 'blog_post_content'' @ [APOS] @ ''"}''\<close>
  using C5_missing_post_id_plain
    [of "json_request (JObj [(''context_id'', JStr ''blog_post_content'')])" no_files]
  by (simp add: json_request_plain) (simp add: json_request_def)

text \<open>
  The claim as stated fails for a request that negotiated SSE: the status is
  200, and the body is neither plain JSON nor the missing-parameter error.
\<close>

theorem C5_counterexample:
  \<open>statusLine (response_of
      (post_mcp no_files (sse_request (JObj [(''context_id'', JStr ''blog_post_content'')])))) = Some 200 \<and>
   statusLine (response_of
      (post_mcp no_files (sse_request (JObj [(''context_id'', JStr ''blog_post_content'')])))) \<noteq> Some 400 \<and>
   written (response_of
      (post_mcp no_files (sse_request (JObj [(''context_id'', JStr ''blog_post_content'')])))) =
     ''data: {"error":"Internal server error"}'' @ [LF, LF]\<close>
proof -
  have "sse_reply (post_mcp no_files
      (sse_request (JObj [(''context_id'', JStr ''blog_post_content'')]))) 200
      (ErrorEnvelope ''Internal server error'')"
    by (rule sse_missing_post_id) (simp_all add: sse_request_negotiates, simp_all add: sse_request_def)
  then show ?thesis by (simp add: sse_reply_def internal_error_text)
qed

text \<open>
  Claim C7, as amended. A plain request for \<^verbatim>\<open>blog_post_content\<close> with a
  \<^verbatim>\<open>post_id\<close> for which \<^verbatim>\<open>getBlogPostContent\<close> returns \<^verbatim>\<open>null\<close> is answered with
  status 404 and the JSON text of \<^verbatim>\<open>{error: "Blog post with id '<post_id>' not found"}\<close>,
  where the id appears as it converts to a string. When that string has no
  double quote, backslash or control character, the body is the message with
  the id copied into it.
\<close>

theorem C7_post_not_found_plain:
  assumes "\<not> isSseRequest req"
    and "get_property (Some (body req)) ''context_id'' = Some (JStr ''blog_post_content'')"
    and "js_truthy (get_property (Some (body req)) ''params'')"
    and "postId = get_property (get_property (Some (body req)) ''params'') ''post_id''"
    and "js_truthy postId"
    and "getBlogPostContent w postId = Inr None"
  shows \<open>\<exists>name. template postId = Inr name \<and>
           plain_reply (post_mcp w req) 404
             (ErrorEnvelope (''Blog post with id '' @ [APOS] @ name @ [APOS] @ '' not found'')) \<and>
           ((\<forall>c\<in>set name. c \<noteq> CHR 0x22 \<and> c \<noteq> CHR 0x5C \<and> 32 \<le> (of_char c :: nat)) \<longrightarrow>
              written (response_of (post_mcp w req)) =
                ''{"error":"Blog post with id '' @ [APOS] @ name @ [APOS] @ '' not found"}'')\<close>
proof -
  from assms(6) obtain name where name: "template postId = Inr name"
    by (rule getBlogPostContent_printed)
  from assms(4-6) have absent:
    "getBlogPostContent w (get_property (get_property (Some (body req)) ''params'') ''post_id'')
       = Inr None \<or>
     getBlogPostContent w (get_property (get_property (Some (body req)) ''params'') ''post_id'')
       = Inr (Some [])"
    by simp
  from assms(4,5) have truthy:
    "js_truthy (get_property (get_property (Some (body req)) ''params'') ''post_id'')"
    by simp
  from name have name':
    "template (get_property (get_property (Some (body req)) ''params'') ''post_id'') = Inr name"
    unfolding assms(4) .
  have reply: "plain_reply (post_mcp w req) 404
      (ErrorEnvelope (''Blog post with id '' @ [APOS] @ name @ [APOS] @ '' not found''))"
    using assms(1)
    by (rule answered_plain) (rule try_post_not_found [OF assms(2,3) truthy name' absent])
  have \<open>written (response_of (post_mcp w req)) =
          ''{"error":"Blog post with id '' @ [APOS] @ name @ [APOS] @ '' not found"}''\<close>
    if plain: "\<forall>c\<in>set name. c \<noteq> CHR 0x22 \<and> c \<noteq> CHR 0x5C \<and> 32 \<le> (of_char c :: nat)"
  proof -
    have "quote ((''Blog post with id '' @ [APOS]) @ name @ ([APOS] @ '' not found'')) =
        CHR 0x22 # (''Blog post with id '' @ [APOS]) @ name @ ([APOS] @ '' not found'') @ [CHR 0x22]"
      using plain by (rule quote_embedded) (simp_all add: quote_char_def)
    with reply show ?thesis
      by (simp add: plain_reply_def stringify_error)
  qed
  with name reply show ?thesis by blast
qed

theorem C7_post_not_found_plain_witness:
  \<open>\<not> isSseRequest (json_request (post_request ''missing-id'')) \<and>
   get_property (Some (body (json_request (post_request ''missing-id'')))) ''context_id'' =
     Some (JStr ''blog_post_content'') \<and>
   js_truthy (get_property (Some (body (json_request (post_request ''missing-id'')))) ''params'') \<and>
   js_truthy (Some (JStr ''missing-id'')) \<and>
   getBlogPostContent no_files (Some (JStr ''missing-id'')) = Inr None \<and>
   plain_reply (post_mcp no_files (json_request (post_request ''missing-id''))) 404
     (ErrorEnvelope (''Blog post with id '' @ [APOS] @ ''missing-id'' @ [APOS] @ '' not found'')) \<and>
   written (response_of (post_mcp no_files (json_request (post_request ''missing-id'')))) =
     ''{"error":"Blog post with id 'missing-id' not found"}''\<close>
proof -
  have plain: "\<not> isSseRequest (json_request (post_request ''missing-id''))"
    by (rule json_request_plain)
  have ctx: "get_property (Some (body (json_request (post_request ''missing-id'')))) ''context_id'' =
     Some (JStr ''blog_post_content'')"
    by (simp add: json_request_def post_request_def)
  have params: "js_truthy (get_property (Some (body (json_request (post_request ''missing-id'')))) ''params'')"
    by (simp add: json_request_def post_request_def)
  have id: "Some (JStr ''missing-id'') =
      get_property (get_property (Some (body (json_request (post_request ''missing-id'')))) ''params'')
        ''post_id''"
    by (simp add: json_request_def post_request_def)
  have truthy: "js_truthy (Some (JStr ''missing-id''))" by simp
  have absent: "getBlogPostContent no_files (Some (JStr ''missing-id'')) = Inr None"
    by (simp add: getBlogPostContent_def getBlogPostContent_try_def no_files_def)
  from C7_post_not_found_plain [OF plain ctx params id truthy absent]
  show ?thesis using plain ctx params absent by simp
qed

text \<open>
  The claim as stated fails for a request that negotiated SSE: the status is
  200 and the body is the frame of an internal error.
\<close>

theorem C7_counterexample:
  \<open>getBlogPostContent no_files (Some (JStr ''missing-id'')) = Inr None \<and>
   statusLine (response_of (post_mcp no_files (sse_request (post_request ''missing-id'')))) = Some 200 \<and>
   statusLine (response_of (post_mcp no_files (sse_request (post_request ''missing-id'')))) \<noteq> Some 404 \<and>
   written (response_of (post_mcp no_files (sse_request (post_request ''missing-id'')))) =
     ''data: {"error":"Internal server error"}'' @ [LF, LF] \<and>
   written (response_of (post_mcp no_files (sse_request (post_request ''missing-id'')))) \<noteq>
     ''{"error":"Blog post with id 'missing-id' not found"}''\<close>
proof -
  have absent: "getBlogPostContent no_files (Some (JStr ''missing-id'')) = Inr None"
    by (simp add: getBlogPostContent_def getBlogPostContent_try_def no_files_def)
  have "sse_reply (post_mcp no_files (sse_request (post_request ''missing-id''))) 200
      (ErrorEnvelope ''Internal server error'')"
    by (rule sse_post_not_found [where name = "''missing-id''"])
       (simp_all add: sse_request_negotiates, simp_all add: sse_request_def post_request_def absent)
  with absent show ?thesis by (simp add: sse_reply_def internal_error_text)
qed

text \<open>
  Claim C8, as amended. A plain request whose \<^verbatim>\<open>context_id\<close> passes the
  presence test, converts to a string and is none of the three known
  identifiers is answered with status 404 and the error
  \<^verbatim>\<open>Context with id '<context_id>' not found\<close>.
\<close>

theorem C8_unknown_context_plain:
  assumes "\<not> isSseRequest req"
    and "context_id = get_property (Some (body req)) ''context_id''"
    and "js_truthy context_id"
    and "template context_id = Inr name"
    and "context_id \<noteq> Some (JStr ''profile'')"
    and "context_id \<noteq> Some (JStr ''blog_posts_list'')"
    and "context_id \<noteq> Some (JStr ''blog_post_content'')"
  shows "plain_reply (post_mcp w req) 404
           (ErrorEnvelope (''Context with id '' @ [APOS] @ name @ [APOS] @ '' not found''))"
  using assms(1)
proof (rule answered_plain)
  fix res
  from assms(2-7)
  show "mcp_try w (get_property (Some (body req)) ''context_id'')
          (get_property (Some (body req)) ''params'') False res =
        res_json
          (ErrorEnvelope (''Context with id '' @ [APOS] @ name @ [APOS] @ '' not found''))
          (res_status 404 res)"
    by (intro try_unknown_context) simp_all
qed

theorem C8_unknown_context_plain_witness:
  \<open>\<not> isSseRequest (json_request (JObj [(''context_id'', JStr ''comments'')])) \<and>
   js_truthy (Some (JStr ''comments'')) \<and>
   template (Some (JStr ''comments'')) = Inr ''comments'' \<and>
   Some (JStr ''comments'') \<noteq> Some (JStr ''profile'') \<and>
   Some (JStr ''comments'') \<noteq> Some (JStr ''blog_posts_list'') \<and>
   Some (JStr ''comments'') \<noteq> Some (JStr ''blog_post_content'') \<and>
   plain_reply (post_mcp no_files (json_request (JObj [(''context_id'', JStr ''comments'')]))) 404
     (ErrorEnvelope (''Context with id '' @ [APOS] @ ''comments'' @ [APOS] @ '' not found'')) \<and>
   JSON_stringify (ErrorEnvelope (''Context with id '' @ [APOS] @ ''comments'' @ [APOS] @ '' not found'')) =
     ''{"error":"Context with id 'comments' not found"}''\<close>
proof -
  have plain: "\<not> isSseRequest (json_request (JObj [(''context_id'', JStr ''comments'')]))"
    by (rule json_request_plain)
  have id: "Some (JStr ''comments'') =
      get_property (Some (body (json_request (JObj [(''context_id'', JStr ''comments'')])))) ''context_id''"
    by (simp add: json_request_def)
  have "plain_reply (post_mcp no_files (json_request (JObj [(''context_id'', JStr ''comments'')]))) 404
     (ErrorEnvelope (''Context with id '' @ [APOS] @ ''comments'' @ [APOS] @ '' not found''))"
    by (rule C8_unknown_context_plain [OF plain id]) simp_all
  then show ?thesis using plain
    by (simp add: stringify_error quote_def quote_char_def)
qed

text \<open>
  The claim as stated fails for a request that negotiated SSE, where the
  status is 200 and the payload is an internal error that does not mention the
  id; and it fails for a plain request whose \<^verbatim>\<open>context_id\<close> is an object with a
  member \<^verbatim>\<open>toString\<close>, where the request log throws and the status is 500.
\<close>

theorem C8_counterexample:
  \<open>statusLine (response_of
      (post_mcp no_files (sse_request (JObj [(''context_id'', JStr ''comments'')])))) = Some 200 \<and>
   statusLine (response_of
      (post_mcp no_files (sse_request (JObj [(''context_id'', JStr ''comments'')])))) \<noteq> Some 404 \<and>
   written (response_of
      (post_mcp no_files (sse_request (JObj [(''context_id'', JStr ''comments'')])))) =
     ''data: {"error":"Internal server error"}'' @ [LF, LF] \<and>
   js_truthy (Some (JObj [(''toString'', JNull)])) \<and>
   statusLine (response_of
      (post_mcp no_files (json_request (JObj [(''context_id'', JObj [(''toString'', JNull)])])))) =
     Some 500 \<and>
   written (response_of
      (post_mcp no_files (json_request (JObj [(''context_id'', JObj [(''toString'', JNull)])])))) =
     ''{"error":"Internal server error"}''\<close>
proof -
  have "sse_reply (post_mcp no_files (sse_request (JObj [(''context_id'', JStr ''comments'')]))) 200
      (ErrorEnvelope ''Internal server error'')"
    by (rule sse_unknown_context [where name = "''comments''"])
       (simp_all add: sse_request_negotiates, simp_all add: sse_request_def)
  moreover
  have "plain_reply
      (post_mcp no_files (json_request (JObj [(''context_id'', JObj [(''toString'', JNull)])]))) 500
      (ErrorEnvelope ''Internal server error'')"
    by (rule plain_unprintable_context [OF json_request_plain, where e = TypeError])
       (simp_all add: json_request_def)
  ultimately show ?thesis
    by (simp add: sse_reply_def plain_reply_def internal_error_text)
qed

section \<open>Successful dispatch\<close>

text \<open>
  Claim C6. For each identifier of the catalog a successful dispatch delivers,
  in the negotiated envelope and with status 200, a context whose format is
  \<^verbatim>\<open>application/json\<close> for \<^verbatim>\<open>profile\<close> and for \<^verbatim>\<open>blog_posts_list\<close>, with the JSON
  text of the profile or of the post list as content, and \<^verbatim>\<open>text/markdown\<close> for
  \<^verbatim>\<open>blog_post_content\<close>, with the Markdown body as content. The first two
  always succeed; the third succeeds when the post has a non-empty body.
\<close>

theorem C6_formats:
  "(get_property (Some (body req)) ''context_id'' = Some (JStr ''profile'') \<longrightarrow>
      (\<exists>userProfile. getUserProfile w = Inr userProfile \<and>
         negotiated_reply req (post_mcp w req) 200
           (ContextResponse (JSON_stringify userProfile) ''application/json''))) \<and>
   (get_property (Some (body req)) ''context_id'' = Some (JStr ''blog_posts_list'') \<longrightarrow>
      (\<exists>posts. getBlogPosts w = Inr posts \<and>
         negotiated_reply req (post_mcp w req) 200
           (ContextResponse (JSON_stringify posts) ''application/json''))) \<and>
   (get_property (Some (body req)) ''context_id'' = Some (JStr ''blog_post_content'') \<and>
    js_truthy (get_property (Some (body req)) ''params'') \<and>
    js_truthy (get_property (get_property (Some (body req)) ''params'') ''post_id'') \<and>
    getBlogPostContent w (get_property (get_property (Some (body req)) ''params'') ''post_id'') =
      Inr (Some content) \<and>
    content \<noteq> [] \<longrightarrow>
      negotiated_reply req (post_mcp w req) 200 (ContextResponse content ''text/markdown''))"
proof (intro conjI impI)
  assume id: "get_property (Some (body req)) ''context_id'' = Some (JStr ''profile'')"
  obtain userProfile where profile: "getUserProfile w = Inr userProfile"
    using getUserProfile_returns by blast
  have "negotiated_reply req (post_mcp w req) 200
      (ContextResponse (JSON_stringify userProfile) ''application/json'')"
    unfolding negotiated_reply_def by (rule delivered) (rule try_profile [OF id profile])
  with profile show "\<exists>userProfile. getUserProfile w = Inr userProfile \<and>
      negotiated_reply req (post_mcp w req) 200
        (ContextResponse (JSON_stringify userProfile) ''application/json'')"
    by blast
next
  assume id: "get_property (Some (body req)) ''context_id'' = Some (JStr ''blog_posts_list'')"
  obtain posts where list: "getBlogPosts w = Inr posts"
    using getBlogPosts_returns by blast
  have "negotiated_reply req (post_mcp w req) 200
      (ContextResponse (JSON_stringify posts) ''application/json'')"
    unfolding negotiated_reply_def by (rule delivered) (rule try_blog_posts_list [OF id list])
  with list show "\<exists>posts. getBlogPosts w = Inr posts \<and>
      negotiated_reply req (post_mcp w req) 200
        (ContextResponse (JSON_stringify posts) ''application/json'')"
    by blast
next
  assume "get_property (Some (body req)) ''context_id'' = Some (JStr ''blog_post_content'') \<and>
    js_truthy (get_property (Some (body req)) ''params'') \<and>
    js_truthy (get_property (get_property (Some (body req)) ''params'') ''post_id'') \<and>
    getBlogPostContent w (get_property (get_property (Some (body req)) ''params'') ''post_id'') =
      Inr (Some content) \<and>
    content \<noteq> []"
  then show "negotiated_reply req (post_mcp w req) 200 (ContextResponse content ''text/markdown'')"
    unfolding negotiated_reply_def by (intro delivered try_blog_post_content) simp_all
qed

theorem C6_formats_witness:
  "get_property (Some (body (json_request (JObj [(''context_id'', JStr ''profile'')])))) ''context_id'' =
     Some (JStr ''profile'') \<and>
   plain_reply (post_mcp no_files (json_request (JObj [(''context_id'', JStr ''profile'')]))) 200
     (ContextResponse (JSON_stringify default_profile) ''application/json'') \<and>
   get_property (Some (body (sse_request (JObj [(''context_id'', JStr ''blog_posts_list'')]))))
     ''context_id'' = Some (JStr ''blog_posts_list'') \<and>
   sse_reply (post_mcp no_files (sse_request (JObj [(''context_id'', JStr ''blog_posts_list'')]))) 200
     (ContextResponse (JSON_stringify default_posts) ''application/json'') \<and>
   get_property (Some (body (json_request (post_request ''hello'')))) ''context_id'' =
     Some (JStr ''blog_post_content'') \<and>
   js_truthy (get_property (Some (body (json_request (post_request ''hello'')))) ''params'') \<and>
   js_truthy (get_property (get_property (Some (body (json_request (post_request ''hello''))))
     ''params'') ''post_id'') \<and>
   getBlogPostContent two_posts
     (get_property (get_property (Some (body (json_request (post_request ''hello'')))) ''params'')
        ''post_id'') = Inr (Some ''# Hello'') \<and>
   plain_reply (post_mcp two_posts (json_request (post_request ''hello''))) 200
     (ContextResponse ''# Hello'' ''text/markdown'')"
proof -
  have profile: "getUserProfile no_files = Inr default_profile"
    by (simp add: getUserProfile_def getUserProfile_try_def no_files_def)
  have posts: "getBlogPosts no_files = Inr default_posts"
    by (simp add: getBlogPosts_def getBlogPosts_try_def no_files_def)
  have hello: "getBlogPostContent two_posts
     (get_property (get_property (Some (body (json_request (post_request ''hello'')))) ''params'')
        ''post_id'') = Inr (Some ''# Hello'')"
    by (simp add: getBlogPostContent_def getBlogPostContent_try_def two_posts_def json_request_def
        post_request_def)
  have shape: "get_property (Some (body (json_request (post_request ''hello'')))) ''context_id'' =
     Some (JStr ''blog_post_content'') \<and>
   js_truthy (get_property (Some (body (json_request (post_request ''hello'')))) ''params'') \<and>
   js_truthy (get_property (get_property (Some (body (json_request (post_request ''hello''))))
     ''params'') ''post_id'')"
    by (simp add: json_request_def post_request_def)
  have ids: "get_property (Some (body (json_request (JObj [(''context_id'', JStr ''profile'')]))))
      ''context_id'' = Some (JStr ''profile'')"
    "get_property (Some (body (sse_request (JObj [(''context_id'', JStr ''blog_posts_list'')]))))
      ''context_id'' = Some (JStr ''blog_posts_list'')"
    by (simp_all add: json_request_def sse_request_def)
  from C6_formats [of "json_request (JObj [(''context_id'', JStr ''profile'')])" no_files]
    C6_formats [of "sse_request (JObj [(''context_id'', JStr ''blog_posts_list'')])" no_files]
    C6_formats [of "json_request (post_request ''hello'')" two_posts "''# Hello''"]
  show ?thesis
    using profile posts hello shape ids
    by (simp add: negotiated_reply_def json_request_plain sse_request_negotiates)
qed

section \<open>Storage failures\<close>

text \<open>The \<^verbatim>\<open>statusCode\<close> property after the not-found branch, in either envelope.\<close>

lemma not_found_statusCode:
  assumes "get_property (Some (body req)) ''context_id'' = Some (JStr ''blog_post_content'')"
    and "js_truthy (get_property (Some (body req)) ''params'')"
    and "js_truthy (get_property (get_property (Some (body req)) ''params'') ''post_id'')"
    and "template (get_property (get_property (Some (body req)) ''params'') ''post_id'') = Inr name"
    and "getBlogPostContent w (get_property (get_property (Some (body req)) ''params'') ''post_id'')
           = Inr None \<or>
         getBlogPostContent w (get_property (get_property (Some (body req)) ''params'') ''post_id'')
           = Inr (Some [])"
  shows "statusCode (response_of (post_mcp w req)) = 404"
proof (cases "isSseRequest req")
  case True
  then show ?thesis by (rule answered_sse) (rule try_post_not_found [OF assms])
next
  case False
  then show ?thesis by (rule plain_statusCode) (rule try_post_not_found [OF assms])
qed

text \<open>
  Claim C9. Every failure of the storage layer is absorbed by the helper that
  meets it. The helpers for the profile and the post list never reject, and
  the helper for a post body does not reject for an id that converts to a
  string. When the read of the profile or of the post list fails, or the text
  read is not JSON, the helper returns its built-in default, and the
  dispatcher delivers that default as a success. When the read of a post body
  fails, whatever the error, the helper returns \<^verbatim>\<open>null\<close>, and the dispatcher
  takes its not-found branch: it assigns status 404, and a plain request
  receives the 404 reply naming the post.
\<close>

theorem C9_storage_failures_absorbed:
  "(\<exists>profile. getUserProfile w = Inr profile) \<and>
   (\<exists>posts. getBlogPosts w = Inr posts) \<and>
   (template postId = Inr name \<longrightarrow> (\<exists>content. getBlogPostContent w postId = Inr content)) \<and>
   (readFile w [''data'', ''profile.json''] = Inl e \<or>
    (\<exists>text. readFile w [''data'', ''profile.json''] = Inr text \<and> JSON_parse w text = Inl e) \<longrightarrow>
      getUserProfile w = Inr default_profile \<and>
      (get_property (Some (body req)) ''context_id'' = Some (JStr ''profile'') \<longrightarrow>
         negotiated_reply req (post_mcp w req) 200
           (ContextResponse (JSON_stringify default_profile) ''application/json''))) \<and>
   (readFile w [''data'', ''posts'', ''index.json''] = Inl e \<or>
    (\<exists>text. readFile w [''data'', ''posts'', ''index.json''] = Inr text \<and>
       JSON_parse w text = Inl e) \<longrightarrow>
      getBlogPosts w = Inr default_posts \<and>
      (get_property (Some (body req)) ''context_id'' = Some (JStr ''blog_posts_list'') \<longrightarrow>
         negotiated_reply req (post_mcp w req) 200
           (ContextResponse (JSON_stringify default_posts) ''application/json''))) \<and>
   (template postId = Inr name \<and>
    readFile w [''data'', ''posts'', name @ ''.md''] = Inl e \<longrightarrow>
      getBlogPostContent w postId = Inr None \<and>
      (get_property (Some (body req)) ''context_id'' = Some (JStr ''blog_post_content'') \<and>
       js_truthy (get_property (Some (body req)) ''params'') \<and>
       postId = get_property (get_property (Some (body req)) ''params'') ''post_id'' \<and>
       js_truthy postId \<longrightarrow>
         statusCode (response_of (post_mcp w req)) = 404 \<and>
         (\<not> isSseRequest req \<longrightarrow>
            plain_reply (post_mcp w req) 404
              (ErrorEnvelope (''Blog post with id '' @ [APOS] @ name @ [APOS] @ '' not found'')))))"
proof (intro conjI impI)
  show "\<exists>profile. getUserProfile w = Inr profile" by (rule getUserProfile_returns)
  show "\<exists>posts. getBlogPosts w = Inr posts" by (rule getBlogPosts_returns)
  show "\<exists>content. getBlogPostContent w postId = Inr content" if "template postId = Inr name"
    using that by (rule getBlogPostContent_returns)
next
  assume "readFile w [''data'', ''profile.json''] = Inl e \<or>
    (\<exists>text. readFile w [''data'', ''profile.json''] = Inr text \<and> JSON_parse w text = Inl e)"
  then show default: "getUserProfile w = Inr default_profile" by (rule getUserProfile_fallback)
  assume id: "get_property (Some (body req)) ''context_id'' = Some (JStr ''profile'')"
  show "negotiated_reply req (post_mcp w req) 200
      (ContextResponse (JSON_stringify default_profile) ''application/json'')"
    unfolding negotiated_reply_def by (rule delivered) (rule try_profile [OF id default])
next
  assume "readFile w [''data'', ''posts'', ''index.json''] = Inl e \<or>
    (\<exists>text. readFile w [''data'', ''posts'', ''index.json''] = Inr text \<and> JSON_parse w text = Inl e)"
  then show default: "getBlogPosts w = Inr default_posts" by (rule getBlogPosts_fallback)
  assume id: "get_property (Some (body req)) ''context_id'' = Some (JStr ''blog_posts_list'')"
  show "negotiated_reply req (post_mcp w req) 200
      (ContextResponse (JSON_stringify default_posts) ''application/json'')"
    unfolding negotiated_reply_def by (rule delivered) (rule try_blog_posts_list [OF id default])
next
  assume failed: "template postId = Inr name \<and>
    readFile w [''data'', ''posts'', name @ ''.md''] = Inl e"
  then have name: "template postId = Inr name"
    and read: "readFile w [''data'', ''posts'', name @ ''.md''] = Inl e"
    by blast+
  from name read show absent: "getBlogPostContent w postId = Inr None"
    by (rule getBlogPostContent_absent)
  assume request: "get_property (Some (body req)) ''context_id'' = Some (JStr ''blog_post_content'') \<and>
       js_truthy (get_property (Some (body req)) ''params'') \<and>
       postId = get_property (get_property (Some (body req)) ''params'') ''post_id'' \<and>
       js_truthy postId"
  then have id: "get_property (Some (body req)) ''context_id'' = Some (JStr ''blog_post_content'')"
    and params: "js_truthy (get_property (Some (body req)) ''params'')"
    and postId: "postId = get_property (get_property (Some (body req)) ''params'') ''post_id''"
    and truthy: "js_truthy postId"
    by blast+
  from truthy have truthy': "js_truthy (get_property (get_property (Some (body req)) ''params'') ''post_id'')"
    unfolding postId .
  from name have name': "template (get_property (get_property (Some (body req)) ''params'') ''post_id'')
      = Inr name"
    unfolding postId .
  from absent have absent': "getBlogPostContent w
      (get_property (get_property (Some (body req)) ''params'') ''post_id'') = Inr None \<or>
    getBlogPostContent w
      (get_property (get_property (Some (body req)) ''params'') ''post_id'') = Inr (Some [])"
    unfolding postId by simp
  show "statusCode (response_of (post_mcp w req)) = 404"
    by (rule not_found_statusCode [OF id params truthy' name' absent'])
  assume "\<not> isSseRequest req"
  then show "plain_reply (post_mcp w req) 404
      (ErrorEnvelope (''Blog post with id '' @ [APOS] @ name @ [APOS] @ '' not found''))"
    by (rule answered_plain) (rule try_post_not_found [OF id params truthy' name' absent'])
qed

theorem C9_storage_failures_absorbed_witness:
  "template (Some (JStr ''missing-id'')) = Inr ''missing-id'' \<and>
   readFile no_files [''data'', ''profile.json''] = Inl (ReadFailed ''ENOENT'') \<and>
   getUserProfile no_files = Inr default_profile \<and>
   plain_reply (post_mcp no_files (json_request (JObj [(''context_id'', JStr ''profile'')]))) 200
     (ContextResponse (JSON_stringify default_profile) ''application/json'') \<and>
   readFile no_files [''data'', ''posts'', ''index.json''] = Inl (ReadFailed ''ENOENT'') \<and>
   getBlogPosts no_files = Inr default_posts \<and>
   sse_reply (post_mcp no_files (sse_request (JObj [(''context_id'', JStr ''blog_posts_list'')]))) 200
     (ContextResponse (JSON_stringify default_posts) ''application/json'') \<and>
   readFile no_files [''data'', ''posts'', ''missing-id.md''] = Inl (ReadFailed ''ENOENT'') \<and>
   getBlogPostContent no_files (Some (JStr ''missing-id'')) = Inr None \<and>
   statusCode (response_of (post_mcp no_files (json_request (post_request ''missing-id'')))) = 404 \<and>
   plain_reply (post_mcp no_files (json_request (post_request ''missing-id''))) 404
     (ErrorEnvelope (''Blog post with id '' @ [APOS] @ ''missing-id'' @ [APOS] @ '' not found'')) \<and>
   statusCode (response_of (post_mcp no_files (sse_request (post_request ''missing-id'')))) = 404 \<and>
   readFile unparsable [''data'', ''profile.json''] = Inr ''{'' \<and>
   JSON_parse unparsable ''{'' = Inl SyntaxError \<and>
   getUserProfile unparsable = Inr default_profile"
proof -
  have reads: "readFile no_files [''data'', ''profile.json''] = Inl (ReadFailed ''ENOENT'')"
    "readFile no_files [''data'', ''posts'', ''index.json''] = Inl (ReadFailed ''ENOENT'')"
    "readFile no_files [''data'', ''posts'', ''missing-id'' @ ''.md''] = Inl (ReadFailed ''ENOENT'')"
    by (simp_all add: no_files_def)
  have broken: "readFile unparsable [''data'', ''profile.json''] = Inr ''{''"
    "JSON_parse unparsable ''{'' = Inl SyntaxError"
    by (simp_all add: unparsable_def)
  have shapes:
    "get_property (Some (body (json_request (JObj [(''context_id'', JStr ''profile'')])))) ''context_id''
       = Some (JStr ''profile'')"
    "get_property (Some (body (sse_request (JObj [(''context_id'', JStr ''blog_posts_list'')]))))
       ''context_id'' = Some (JStr ''blog_posts_list'')"
    "get_property (Some (body (json_request (post_request ''missing-id'')))) ''context_id''
       = Some (JStr ''blog_post_content'')"
    "get_property (Some (body (json_request (post_request ''missing-id'')))) ''params''
       = Some (JObj [(''post_id'', JStr ''missing-id'')])"
    "get_property (Some (body (sse_request (post_request ''missing-id'')))) ''context_id''
       = Some (JStr ''blog_post_content'')"
    "get_property (Some (body (sse_request (post_request ''missing-id'')))) ''params''
       = Some (JObj [(''post_id'', JStr ''missing-id'')])"
    by (simp_all add: json_request_def sse_request_def post_request_def)
  from C9_storage_failures_absorbed
      [where w = no_files and e = "ReadFailed ''ENOENT''" and postId = "Some (JStr ''missing-id'')"
         and name = "''missing-id''"
         and req = "json_request (JObj [(''context_id'', JStr ''profile'')])"]
    C9_storage_failures_absorbed
      [where w = no_files and e = "ReadFailed ''ENOENT''" and postId = "Some (JStr ''missing-id'')"
         and name = "''missing-id''"
         and req = "sse_request (JObj [(''context_id'', JStr ''blog_posts_list'')])"]
    C9_storage_failures_absorbed
      [where w = no_files and e = "ReadFailed ''ENOENT''" and postId = "Some (JStr ''missing-id'')"
         and name = "''missing-id''"
         and req = "json_request (post_request ''missing-id'')"]
    C9_storage_failures_absorbed
      [where w = no_files and e = "ReadFailed ''ENOENT''" and postId = "Some (JStr ''missing-id'')"
         and name = "''missing-id''"
         and req = "sse_request (post_request ''missing-id'')"]
    C9_storage_failures_absorbed
      [where w = unparsable and e = SyntaxError and postId = None and name = "''undefined''"
         and req = "json_request (JObj [])"]
  show ?thesis
    using reads broken shapes
    by (simp add: negotiated_reply_def json_request_plain sse_request_negotiates)
qed

section \<open>The empty post\<close>

text \<open>
  Claim C10, as amended. When the body of the requested post is the empty
  string, the dispatcher answers exactly as it does for a post that is absent,
  in either envelope, and never with a success envelope of empty content; a
  plain request receives status 404 and the error naming the post.
\<close>

theorem C10_empty_post_as_absent:
  assumes "get_property (Some (body req)) ''context_id'' = Some (JStr ''blog_post_content'')"
    and "js_truthy (get_property (Some (body req)) ''params'')"
    and "postId = get_property (get_property (Some (body req)) ''params'') ''post_id''"
    and "js_truthy postId"
    and "getBlogPostContent w postId = Inr (Some [])"
  shows "\<exists>name. template postId = Inr name \<and>
           (\<forall>w'. getBlogPostContent w' postId = Inr None \<longrightarrow> post_mcp w req = post_mcp w' req) \<and>
           (\<not> isSseRequest req \<longrightarrow>
              plain_reply (post_mcp w req) 404
                (ErrorEnvelope (''Blog post with id '' @ [APOS] @ name @ [APOS] @ '' not found''))) \<and>
           \<not> negotiated_reply req (post_mcp w req) 200 (ContextResponse [] ''text/markdown'')"
proof -
  from assms(5) obtain name where name: "template postId = Inr name"
    by (rule getBlogPostContent_printed)
  from assms(3,4) have truthy:
    "js_truthy (get_property (get_property (Some (body req)) ''params'') ''post_id'')"
    by simp
  from name have name':
    "template (get_property (get_property (Some (body req)) ''params'') ''post_id'') = Inr name"
    unfolding assms(3) .
  have branch: "mcp_try v (get_property (Some (body req)) ''context_id'')
        (get_property (Some (body req)) ''params'') isSse res =
      res_json
        (ErrorEnvelope (''Blog post with id '' @ [APOS] @ name @ [APOS] @ '' not found''))
        (res_status 404 res)"
    if "getBlogPostContent v postId = Inr None \<or> getBlogPostContent v postId = Inr (Some [])"
    for v isSse res
    using that unfolding assms(3) by (rule try_post_not_found [OF assms(1,2) truthy name'])
  have empty: "getBlogPostContent w postId = Inr None \<or> getBlogPostContent w postId = Inr (Some [])"
    using assms(5) by simp
  have same: "post_mcp w req = post_mcp w' req" if "getBlogPostContent w' postId = Inr None" for w'
  proof -
    from that have "getBlogPostContent w' postId = Inr None \<or>
        getBlogPostContent w' postId = Inr (Some [])"
      by simp
    then have "mcp_post w req res = mcp_post w' req res" for res
      by (simp add: mcp_post_def branch [OF empty] branch)
    then show ?thesis
      by (simp add: post_mcp_def cong: if_cong)
  qed
  have plain: "plain_reply (post_mcp w req) 404
      (ErrorEnvelope (''Blog post with id '' @ [APOS] @ name @ [APOS] @ '' not found''))"
    if "\<not> isSseRequest req"
    using that by (rule answered_plain) (rule branch [OF empty])
  have never: "\<not> negotiated_reply req (post_mcp w req) 200 (ContextResponse [] ''text/markdown'')"
  proof (cases "isSseRequest req")
    case True
    then have "sse_reply (post_mcp w req) 200 (ErrorEnvelope ''Internal server error'')"
      by (rule answered_sse) (rule branch [OF empty])
    then have "written (response_of (post_mcp w req)) \<noteq>
        ''data: '' @ JSON_stringify (ContextResponse [] ''text/markdown'') @ [LF, LF]"
      by (simp add: sse_reply_def internal_error_text JSON_stringify.simps quote_def)
    with True show ?thesis by (simp add: negotiated_reply_def sse_reply_def)
  next
    case False
    then have "statusLine (response_of (post_mcp w req)) \<noteq> Some 200"
      using plain by (simp add: plain_reply_def)
    with False show ?thesis by (simp add: negotiated_reply_def plain_reply_def)
  qed
  from name same plain never show ?thesis by blast
qed

theorem C10_empty_post_as_absent_witness:
  \<open>get_property (Some (body (json_request (post_request ''empty'')))) ''context_id'' =
     Some (JStr ''blog_post_content'') \<and>
   js_truthy (get_property (Some (body (json_request (post_request ''empty'')))) ''params'') \<and>
   js_truthy (Some (JStr ''empty'')) \<and>
   getBlogPostContent two_posts (Some (JStr ''empty'')) = Inr (Some []) \<and>
   getBlogPostContent no_files (Some (JStr ''empty'')) = Inr None \<and>
   post_mcp two_posts (json_request (post_request ''empty'')) =
     post_mcp no_files (json_request (post_request ''empty'')) \<and>
   plain_reply (post_mcp two_posts (json_request (post_request ''empty''))) 404
     (ErrorEnvelope (''Blog post with id '' @ [APOS] @ ''empty'' @ [APOS] @ '' not found''))\<close>
proof -
  have ctx: "get_property (Some (body (json_request (post_request ''empty'')))) ''context_id'' =
     Some (JStr ''blog_post_content'')"
    by (simp add: json_request_def post_request_def)
  have params: "js_truthy (get_property (Some (body (json_request (post_request ''empty'')))) ''params'')"
    by (simp add: json_request_def post_request_def)
  have id: "Some (JStr ''empty'') =
      get_property (get_property (Some (body (json_request (post_request ''empty'')))) ''params'')
        ''post_id''"
    by (simp add: json_request_def post_request_def)
  have truthy: "js_truthy (Some (JStr ''empty''))" by simp
  have empty: "getBlogPostContent two_posts (Some (JStr ''empty'')) = Inr (Some [])"
    by (simp add: getBlogPostContent_def getBlogPostContent_try_def two_posts_def)
  have absent: "getBlogPostContent no_files (Some (JStr ''empty'')) = Inr None"
    by (simp add: getBlogPostContent_def getBlogPostContent_try_def no_files_def)
  from C10_empty_post_as_absent [OF ctx params id truthy empty] obtain name
    where name: "template (Some (JStr ''empty'')) = Inr name"
      and same: "\<forall>w'. getBlogPostContent w' (Some (JStr ''empty'')) = Inr None \<longrightarrow>
        post_mcp two_posts (json_request (post_request ''empty'')) =
        post_mcp w' (json_request (post_request ''empty''))"
      and plain: "\<not> isSseRequest (json_request (post_request ''empty'')) \<longrightarrow>
        plain_reply (post_mcp two_posts (json_request (post_request ''empty''))) 404
          (ErrorEnvelope (''Blog post with id '' @ [APOS] @ name @ [APOS] @ '' not found''))"
    by blast
  from name have "name = ''empty''" by simp
  with plain have reply: "plain_reply (post_mcp two_posts (json_request (post_request ''empty''))) 404
      (ErrorEnvelope (''Blog post with id '' @ [APOS] @ ''empty'' @ [APOS] @ '' not found''))"
    by (simp add: json_request_plain)
  from same absent have eq: "post_mcp two_posts (json_request (post_request ''empty'')) =
      post_mcp no_files (json_request (post_request ''empty''))"
    by blast
  show ?thesis by (intro conjI ctx params truthy empty absent eq reply)
qed

text \<open>
  The claim as stated fails for a request that negotiated SSE: the status is
  200 and the body is the frame of an internal error.
\<close>

theorem C10_counterexample:
  \<open>getBlogPostContent two_posts (Some (JStr ''empty'')) = Inr (Some []) \<and>
   statusLine (response_of (post_mcp two_posts (sse_request (post_request ''empty'')))) = Some 200 \<and>
   statusLine (response_of (post_mcp two_posts (sse_request (post_request ''empty'')))) \<noteq> Some 404 \<and>
   written (response_of (post_mcp two_posts (sse_request (post_request ''empty'')))) =
     ''data: {"error":"Internal server error"}'' @ [LF, LF]\<close>
proof -
  have empty: "getBlogPostContent two_posts (Some (JStr ''empty'')) = Inr (Some [])"
    by (simp add: getBlogPostContent_def getBlogPostContent_try_def two_posts_def)
  have "sse_reply (post_mcp two_posts (sse_request (post_request ''empty''))) 200
      (ErrorEnvelope ''Internal server error'')"
    by (rule sse_post_not_found [where name = "''empty''"])
       (simp_all add: sse_request_negotiates, simp_all add: sse_request_def post_request_def empty)
  with empty show ?thesis by (simp add: sse_reply_def internal_error_text)
qed

end
